theory Spec2Isabelle
  imports Complex_Main "HOL-Library.Word" "HOL-Library.Char_ord" "HOL-Library.List_Lexorder"
    "HOL-Library.AList"
begin

chapter \<open>The IIoT scheduler utilities: workflow converter and results analyzer\<close>

text \<open>
  The repository holds two Python scripts. \<^verbatim>\<open>init.py\<close> turns a header-less batch-task
  table into a text file of \<^verbatim>\<open>TASK\<close> lines; \<^verbatim>\<open>analyze_results.py\<close> loads result tables
  from a directory, aggregates them and writes charts and a statistical summary.
  Both are embedded here as HOL functions. Exceptions are values of \<open>py_error\<close>, the
  console and the file system are explicit state, and loops are recursive functions.

  The cells of a result table are real numbers, and the statistics of the summary
  (mean, standard deviation, minimum, maximum, rounding to four places) are computed
  over the reals: there a float64 metric is idealised, and not-a-number is \<open>None\<close>.
  The correlation matrix and the converter's float rows are computed in binary64
  arithmetic, with its rounding, overflow, underflow, infinities and not-a-number
  (section \<open>binary64 numbers\<close>). Missing cells of a result table are outside the model.
\<close>

section \<open>Python values and exceptions\<close>

datatype py_error = KeyError | ValueError | TypeError | OverflowError

text \<open>Sequencing of steps that may raise: the first exception ends the computation.\<close>

definition and_then :: "py_error + 'a \<Rightarrow> ('a \<Rightarrow> py_error + 'b) \<Rightarrow> py_error + 'b" where
  "and_then r f = (case r of Inl e \<Rightarrow> Inl e | Inr v \<Rightarrow> f v)"

subsection \<open>Decimal text of an integer\<close>

text \<open>\<^verbatim>\<open>str\<close> of a Python \<^verbatim>\<open>int\<close> (and of a numpy \<^verbatim>\<open>int64\<close>): decimal digits, most
  significant first, with a leading minus sign for a negative number.\<close>

definition digit_char :: "nat \<Rightarrow> char" where
  "digit_char d = ''0123456789'' ! d"

fun show_nat :: "nat \<Rightarrow> string" where
  "show_nat n = (if n < 10 then [digit_char n] else show_nat (n div 10) @ [digit_char (n mod 10)])"

declare show_nat.simps [simp del]

definition show_int :: "int \<Rightarrow> string" where
  "show_int i = (if i < 0 then CHR ''-'' # show_nat (nat (- i)) else show_nat (nat i))"

section \<open>binary64 numbers\<close>

text \<open>\<open>rint\<close>: the integer nearest to a real, a tie going to the even neighbour.\<close>

definition rint :: "real \<Rightarrow> int" where
  "rint x = (let f = \<lfloor>x\<rfloor>; d = x - of_int f
             in if d < 1 / 2 then f else if 1 / 2 < d then f + 1
                else if even f then f else f + 1)"

text \<open>
  A float64 value (IEEE 754 binary64, the type of Python's \<^verbatim>\<open>float\<close> and of numpy's
  \<^verbatim>\<open>float64\<close>): a finite number, an infinity, or not-a-number. The finite values are
  the numbers \<open>m * 2 ^ e\<close> with \<open>\<bar>m\<bar> < 2 ^ 53\<close>, \<open>- 1074 \<le> e\<close> and magnitude below
  \<open>2 ^ 1024\<close>. The two zeros \<open>+0.0\<close> and \<open>-0.0\<close> are one value here: they compare equal,
  and nothing modelled below divides by a zero.
\<close>

datatype float64 = Fin real | PosInf | NegInf | NaN

text \<open>
  Rounding to nearest, ties to even. A nonzero \<open>x\<close> with \<open>2 ^ k \<le> \<bar>x\<bar> < 2 ^ (k + 1)\<close> is
  rounded to a multiple of the quantum \<open>2 ^ (k - 52)\<close>, and of \<open>2 ^ (- 1074)\<close> in the
  subnormal range, where a result can underflow to 0; a result of magnitude \<open>2 ^ 1024\<close>
  or more overflows to an infinity.
\<close>

definition expo :: "real \<Rightarrow> int" where
  "expo x = \<lfloor>log 2 \<bar>x\<bar>\<rfloor>"

definition quantum :: "real \<Rightarrow> real" where
  "quantum x = 2 powi (max (expo x - 52) (- 1074))"

definition round64 :: "real \<Rightarrow> float64" where
  "round64 x =
     (if x = 0 then Fin 0
      else let y = of_int (rint (x / quantum x)) * quantum x
           in if 2 ^ 1024 \<le> \<bar>y\<bar> then (if 0 < x then PosInf else NegInf) else Fin y)"

text \<open>\<^verbatim>\<open>np.isfinite\<close>.\<close>

fun is_finite :: "float64 \<Rightarrow> bool" where
  "is_finite (Fin a) = True"
| "is_finite _ = False"

text \<open>The arithmetic operations: the exact result, rounded; an infinity or not-a-number
  by the rules of IEEE 754. The equations of each function are tried in order.\<close>

fun f_neg :: "float64 \<Rightarrow> float64" where
  "f_neg (Fin a) = Fin (- a)"
| "f_neg PosInf = NegInf"
| "f_neg NegInf = PosInf"
| "f_neg NaN = NaN"

fun f_add :: "float64 \<Rightarrow> float64 \<Rightarrow> float64" where
  "f_add (Fin a) (Fin b) = round64 (a + b)"
| "f_add NaN y = NaN"
| "f_add x NaN = NaN"
| "f_add PosInf NegInf = NaN"
| "f_add NegInf PosInf = NaN"
| "f_add PosInf y = PosInf"
| "f_add NegInf y = NegInf"
| "f_add (Fin a) y = y"

definition f_sub :: "float64 \<Rightarrow> float64 \<Rightarrow> float64" where
  "f_sub x y = f_add x (f_neg y)"

fun f_mul :: "float64 \<Rightarrow> float64 \<Rightarrow> float64" where
  "f_mul (Fin a) (Fin b) = round64 (a * b)"
| "f_mul NaN y = NaN"
| "f_mul x NaN = NaN"
| "f_mul (Fin a) y = (if a = 0 then NaN else if 0 < a then y else f_neg y)"
| "f_mul x (Fin b) = (if b = 0 then NaN else if 0 < b then x else f_neg x)"
| "f_mul PosInf y = y"
| "f_mul NegInf y = f_neg y"

fun f_div :: "float64 \<Rightarrow> float64 \<Rightarrow> float64" where
  "f_div (Fin a) (Fin b) =
     (if b = 0 then (if a = 0 then NaN else if 0 < a then PosInf else NegInf)
      else round64 (a / b))"
| "f_div NaN y = NaN"
| "f_div x NaN = NaN"
| "f_div (Fin a) y = Fin 0"
| "f_div x (Fin b) = (if 0 \<le> b then x else f_neg x)"
| "f_div x y = NaN"

fun f_sqrt :: "float64 \<Rightarrow> float64" where
  "f_sqrt (Fin a) = (if a < 0 then NaN else round64 (sqrt a))"
| "f_sqrt PosInf = PosInf"
| "f_sqrt NegInf = NaN"
| "f_sqrt NaN = NaN"

section \<open>The workflow converter (init.py)\<close>

subsection \<open>The rows that \<^verbatim>\<open>iterrows\<close> yields\<close>

text \<open>
  \<^verbatim>\<open>pd.read_csv(input_csv, header=None)\<close> types each column by its content, and
  \<^verbatim>\<open>df.iterrows()\<close> yields each row as a Series of one dtype, the common dtype of the
  columns:

  \<^item> int64 when every column is int64; the cells are numpy \<^verbatim>\<open>int64\<close> scalars, whose
    arithmetic wraps modulo \<open>2 ^ 64\<close>;
  \<^item> uint64 when every column is uint64 (whole numbers from \<open>2 ^ 63\<close> on), with the same
    wrapping, unsigned;
  \<^item> float64 when the columns are numeric and one of them is float64, or int64 stands
    beside uint64; every cell is then a float64, also the cell of an integer column;
  \<^item> bool when every column is boolean;
  \<^item> object in every other case, in particular when some column holds text; the cells are
    then Python objects: \<^verbatim>\<open>int\<close> (unbounded), \<^verbatim>\<open>float\<close>, \<^verbatim>\<open>bool\<close> and \<^verbatim>\<open>str\<close>. An
    empty cell of a text column is the float not-a-number.

  The rows of one table have one dtype and one length; the functions below take any list
  of rows.
\<close>

datatype pyobj = PyInt int | PyFloat float64 | PyBool bool | PyStr string

datatype series =
    Int64Series "64 word list"
  | UInt64Series "64 word list"
  | Float64Series "float64 list"
  | BoolSeries "bool list"
  | ObjectSeries "pyobj list"










subsection \<open>The loop body and the loop\<close>



definition newline :: char where "newline = CHR 0x0A"





subsection \<open>Reading the output file back\<close>





subsection \<open>The documented line format\<close>


text \<open>The number of columns of a row, and the cell of column \<open>k\<close> as a Python value: the
  signed value of an \<^verbatim>\<open>int64\<close>, the unsigned value of a \<^verbatim>\<open>uint64\<close>.\<close>

definition width :: "series \<Rightarrow> nat" where
  "width row = (case row of
      Int64Series ws \<Rightarrow> length ws
    | UInt64Series ws \<Rightarrow> length ws
    | Float64Series xs \<Rightarrow> length xs
    | BoolSeries bs \<Rightarrow> length bs
    | ObjectSeries os \<Rightarrow> length os)"



text \<open>A row the converter can turn into a line: it has columns 5, 6 and 8, \<^verbatim>\<open>int\<close> accepts
  the cell of column 8, and the cells of columns 6 and 5 subtract.\<close>

fun raises :: "py_error + 'a \<Rightarrow> bool" where
  "raises (Inl e) = True"
| "raises (Inr v) = False"

















section \<open>The results analyzer (analyze_results.py)\<close>

subsection \<open>Result tables\<close>

text \<open>
  A row of the primary results table \<^verbatim>\<open>comprehensive_results\<close>, with the columns the
  script reads. A table is the list of its rows in file order. Every table of the
  loaded mapping is taken to carry these columns, with no cell missing; selecting a
  column by its name is the field of the record.
\<close>

text \<open>
  The values of the Algorithm column. The table reader types a column by its content: a
  column of whole numbers is an integer column, and its values are compared as numbers; a
  column with any other text is a column of strings, compared character by character. A
  column never mixes the two, and the order below puts numbers before strings only to be
  total. An Algorithm column that the reader types as floating point or boolean is not
  modelled.
\<close>

datatype label = IntKey int | StrKey string

instantiation label :: linorder
begin

fun less_eq_label :: "label \<Rightarrow> label \<Rightarrow> bool" where
  "less_eq_label (IntKey a) (IntKey b) = (a \<le> b)"
| "less_eq_label (StrKey s) (StrKey t) = (s \<le> t)"
| "less_eq_label (IntKey a) (StrKey t) = True"
| "less_eq_label (StrKey s) (IntKey b) = False"

definition less_label :: "label \<Rightarrow> label \<Rightarrow> bool" where
  "less_label a b = (a \<le> b \<and> \<not> b \<le> a)"

instance
proof
  fix x y z :: label
  show "(x < y) = (x \<le> y \<and> \<not> y \<le> x)"
    by (simp add: less_label_def)
  show "x \<le> x"
    by (cases x) simp_all
  show "x \<le> y \<Longrightarrow> y \<le> z \<Longrightarrow> x \<le> z"
    by (cases x; cases y; cases z) auto
  show "x \<le> y \<Longrightarrow> y \<le> x \<Longrightarrow> x = y"
    by (cases x; cases y) auto
  show "x \<le> y \<or> y \<le> x"
    by (cases x; cases y) auto
qed

end

text \<open>The text of a label in an f-string.\<close>

fun label_text :: "label \<Rightarrow> string" where
  "label_text (IntKey n) = show_int n"
| "label_text (StrKey s) = s"

record result_row =
  Algorithm :: label
  Scenario :: string
  TaskCount :: int
  NodeCount :: int
  TotalCost :: real
  Makespan :: real
  DeadlineHitRate :: real
  ExecutionTime :: real
  EnergyConsumption :: real
  FogUtilization :: real
  CloudUtilization :: real

type_synonym table = "result_row list"

type_synonym column = "result_row \<Rightarrow> real"

subsection \<open>Aggregations of the dataframe library\<close>

text \<open>The statistics of a column of numbers; \<open>None\<close> is not-a-number. \<^verbatim>\<open>std\<close> and
  \<^verbatim>\<open>var\<close> divide by \<open>n - ddof\<close>, and are not-a-number when \<open>n \<le> ddof\<close>.\<close>

definition agg_mean :: "real list \<Rightarrow> real option" where
  "agg_mean xs = (if xs = [] then None else Some (sum_list xs / real (length xs)))"

definition agg_var :: "nat \<Rightarrow> real list \<Rightarrow> real option" where
  "agg_var ddof xs =
     (if length xs \<le> ddof then None
      else Some (sum_list (map (\<lambda>x. (x - sum_list xs / real (length xs))\<^sup>2) xs)
                  / real (length xs - ddof)))"

definition agg_std :: "nat \<Rightarrow> real list \<Rightarrow> real option" where
  "agg_std ddof xs = map_option sqrt (agg_var ddof xs)"

definition agg_min :: "real list \<Rightarrow> real option" where
  "agg_min xs = (case xs of [] \<Rightarrow> None | x # rest \<Rightarrow> Some (fold min rest x))"

definition agg_max :: "real list \<Rightarrow> real option" where
  "agg_max xs = (case xs of [] \<Rightarrow> None | x # rest \<Rightarrow> Some (fold max rest x))"

text \<open>\<^verbatim>\<open>df.groupby('Algorithm')\<close>: the group keys are the distinct values of the column
  in sorted order (\<^verbatim>\<open>sort=True\<close> is the default), each with the rows that carry it.\<close>

definition group_keys :: "table \<Rightarrow> label list" where
  "group_keys df = sort (remdups (map Algorithm df))"

definition get_group :: "label \<Rightarrow> table \<Rightarrow> table" where
  "get_group a df = filter (\<lambda>r. Algorithm r = a) df"

text \<open>\<^verbatim>\<open>df.groupby('Algorithm')[col].mean()\<close>: a Series indexed by the group keys.\<close>

definition groupby_mean :: "column \<Rightarrow> table \<Rightarrow> (label \<times> real option) list" where
  "groupby_mean col df = map (\<lambda>a. (a, agg_mean (map col (get_group a df)))) (group_keys df)"

text \<open>\<^verbatim>\<open>idxmin\<close> and \<^verbatim>\<open>idxmax\<close> of a Series: not-a-number entries are skipped, the label
  of the first entry that attains the extreme value is returned, and a Series with no
  entry left raises \<^verbatim>\<open>ValueError\<close>.\<close>

fun first_best :: "(real \<Rightarrow> real \<Rightarrow> bool) \<Rightarrow> label \<times> real \<Rightarrow> (label \<times> real) list \<Rightarrow> label" where
  "first_best better (k, v) [] = k"
| "first_best better (k, v) ((k', v') # rest) =
     (if better v' v then first_best better (k', v') rest else first_best better (k, v) rest)"

definition dropna :: "(label \<times> real option) list \<Rightarrow> (label \<times> real) list" where
  "dropna ser = concat (map (\<lambda>(k, v). case v of None \<Rightarrow> [] | Some x \<Rightarrow> [(k, x)]) ser)"

definition idxmin :: "(label \<times> real option) list \<Rightarrow> py_error + label" where
  "idxmin ser = (case dropna ser of [] \<Rightarrow> Inl ValueError | e # es \<Rightarrow> Inr (first_best (<) e es))"

definition idxmax :: "(label \<times> real option) list \<Rightarrow> py_error + label" where
  "idxmax ser = (case dropna ser of [] \<Rightarrow> Inl ValueError | e # es \<Rightarrow> Inr (first_best (>) e es))"

text \<open>\<^verbatim>\<open>Series.unique()\<close>: the distinct values in order of first appearance.\<close>

definition unique :: "'a list \<Rightarrow> 'a list" where
  "unique xs = rev (remdups (rev xs))"

text \<open>\<^verbatim>\<open>df.pivot_table(values, index='Algorithm', columns='Scenario', aggfunc='mean')\<close>:
  sorted row and column labels and the mean of each cell, not-a-number for a pair
  with no row.\<close>

type_synonym pivot = "label list \<times> string list \<times> real option list list"

definition pivot_table :: "column \<Rightarrow> table \<Rightarrow> pivot" where
  "pivot_table col df =
     (let index = sort (remdups (map Algorithm df));
          columns = sort (remdups (map Scenario df))
      in (index, columns,
          map (\<lambda>a. map (\<lambda>sc. agg_mean (map col
                 (filter (\<lambda>r. Algorithm r = a \<and> Scenario r = sc) df))) columns) index))"

text \<open>
  \<^verbatim>\<open>df[cols].corr()\<close>: Pearson's coefficient of every pair of columns, computed by the
  library's \<^verbatim>\<open>nancorr\<close> in float64 arithmetic. The matrix of cells is
  \<^verbatim>\<open>to_numpy(dtype=float)\<close>: each cell is the float64 of the table's value. A value of
  the table that is a float64 number already is left as it is; any other real stands
  for the nearest float64.
\<close>

definition cells :: "column \<Rightarrow> table \<Rightarrow> float64 list" where
  "cells c df = map (\<lambda>r. round64 (c r)) df"

text \<open>
  For one pair of columns \<^verbatim>\<open>nancorr\<close> runs over the rows once, skipping a row in which
  one of the two cells is not finite, and keeps the count of rows, the two running
  means, the two sums of squared deviations and the sum of products (Welford's method):

  \<^verbatim>\<open>nobs += 1\<close>, \<^verbatim>\<open>dx = vx - meanx\<close>, \<^verbatim>\<open>dy = vy - meany\<close>,
  \<^verbatim>\<open>meanx += 1. / nobs * dx\<close>, \<^verbatim>\<open>meany += 1. / nobs * dy\<close>,
  \<^verbatim>\<open>ssqdm_x += (vx - meanx) * dx\<close>, \<^verbatim>\<open>ssqdm_y += (vy - meany) * dy\<close>,
  \<^verbatim>\<open>covxy += (vx - meanx) * dy\<close>.

  The count is converted to float64 exactly (it is below \<open>2 ^ 53\<close> for a table that fits
  in memory).
\<close>

record welford =
  nobs :: nat
  meanx :: float64
  meany :: float64
  ssqdm_x :: float64
  ssqdm_y :: float64
  covxy :: float64

definition welford_init :: welford where
  "welford_init = \<lparr>nobs = 0, meanx = Fin 0, meany = Fin 0, ssqdm_x = Fin 0, ssqdm_y = Fin 0,
                    covxy = Fin 0\<rparr>"

definition welford_step :: "welford \<Rightarrow> float64 \<times> float64 \<Rightarrow> welford" where
  "welford_step w v =
     (case v of (vx, vy) \<Rightarrow>
        if is_finite vx \<and> is_finite vy then
          (let n = nobs w + 1;
               dx = f_sub vx (meanx w);
               dy = f_sub vy (meany w);
               mx = f_add (meanx w) (f_mul (f_div (Fin 1) (Fin (real n))) dx);
               my = f_add (meany w) (f_mul (f_div (Fin 1) (Fin (real n))) dy)
           in \<lparr>nobs = n, meanx = mx, meany = my,
               ssqdm_x = f_add (ssqdm_x w) (f_mul (f_sub vx mx) dx),
               ssqdm_y = f_add (ssqdm_y w) (f_mul (f_sub vy my) dy),
               covxy = f_add (covxy w) (f_mul (f_sub vx mx) dy)\<rparr>)
        else w)"

text \<open>The coefficient is clipped to the interval from -1 to 1; a comparison with
  not-a-number is false, so not-a-number stays.\<close>

fun clip :: "float64 \<Rightarrow> float64" where
  "clip (Fin v) = (if 1 < v then Fin 1 else if v < - 1 then Fin (- 1) else Fin v)"
| "clip PosInf = Fin 1"
| "clip NegInf = Fin (- 1)"
| "clip NaN = NaN"

text \<open>After the loop: not-a-number with fewer rows than \<^verbatim>\<open>min_periods = 1\<close> or with the
  divisor \<^verbatim>\<open>sqrt(ssqdm_x * ssqdm_y)\<close> equal to 0, else \<^verbatim>\<open>covxy / divisor\<close>, clipped. A
  divisor that is not-a-number is not equal to 0.\<close>

definition nancorr_pair :: "float64 list \<Rightarrow> float64 list \<Rightarrow> float64" where
  "nancorr_pair xs ys =
     (let w = foldl welford_step welford_init (zip xs ys)
      in if nobs w < 1 then NaN
         else let divisor = f_sqrt (f_mul (ssqdm_x w) (ssqdm_y w))
              in if divisor \<noteq> Fin 0 then clip (f_div (covxy w) divisor) else NaN)"

text \<open>The loops \<^verbatim>\<open>for xi in range(K): for yi in range(xi + 1)\<close> compute the coefficient
  of the columns \<open>xi \<ge> yi\<close> and store it at \<^verbatim>\<open>result[xi, yi]\<close> and at \<^verbatim>\<open>result[yi, xi]\<close>;
  \<open>mat\<close> is the list of the columns.\<close>

definition nancorr :: "float64 list list \<Rightarrow> float64 list list" where
  "nancorr mat =
     map (\<lambda>i. map (\<lambda>j. nancorr_pair (mat ! max i j) (mat ! min i j)) [0..<length mat])
       [0..<length mat]"

definition corr :: "column list \<Rightarrow> table \<Rightarrow> float64 list list" where
  "corr cols df = nancorr (map (\<lambda>c. cells c df) cols)"

text \<open>\<^verbatim>\<open>dropna()\<close> on a frame: the rows with no not-a-number cell.\<close>

definition dropna_rows :: "float64 list list \<Rightarrow> float64 list list" where
  "dropna_rows rows = filter (list_all (\<lambda>v. v \<noteq> NaN)) rows"

text \<open>\<^verbatim>\<open>.round(k)\<close>: to \<open>k\<close> decimal places, a tie going to the even neighbour.\<close>

definition round_decimals :: "nat \<Rightarrow> real \<Rightarrow> real" where
  "round_decimals k x = of_int (rint (x * 10 ^ k)) / 10 ^ k"

text \<open>A frame of statistics: the column labels (metric, statistic), and for each row
  label (an Algorithm) the values under them.\<close>

type_synonym frame = "(string \<times> string) list \<times> (label \<times> real option list) list"

definition summary_metrics :: "(string \<times> column) list" where
  "summary_metrics =
     [(''TotalCost'', TotalCost), (''Makespan'', Makespan),
      (''DeadlineHitRate'', DeadlineHitRate), (''ExecutionTime'', ExecutionTime)]"

text \<open>The statistics asked for by name; \<^verbatim>\<open>'std'\<close> is called with the library's default
  \<^verbatim>\<open>ddof=1\<close>.\<close>

definition stat_functions :: "(string \<times> (real list \<Rightarrow> real option)) list" where
  "stat_functions =
     [(''mean'', agg_mean), (''std'', agg_std 1), (''min'', agg_min), (''max'', agg_max)]"

definition groupby_agg :: "table \<Rightarrow> frame" where
  "groupby_agg df =
     (concat (map (\<lambda>(m, col). map (\<lambda>(st, f). (m, st)) stat_functions) summary_metrics),
      map (\<lambda>a. (a, concat (map (\<lambda>(m, col). map (\<lambda>(st, f). f (map col (get_group a df)))
                                  stat_functions) summary_metrics)))
          (group_keys df))"

definition round_frame :: "nat \<Rightarrow> frame \<Rightarrow> frame" where
  "round_frame k fr = (fst fr, map (\<lambda>(a, vs). (a, map (map_option (round_decimals k)) vs)) (snd fr))"

subsection \<open>The console, the file system and the analyzer object\<close>

text \<open>What the plotting library is asked to draw. Only the calls that carry data, titles
  or axis labels are recorded; styling (rotation of tick labels, grid, legend, colours,
  layout) is left out. The categories of a box plot are labels; the Scenario column is
  text. An axes is named by its (row, column) in the figure's grid. The calls are
  recorded, not rendered: what the plotting library does with the data, an exception of
  its own while it renders included, is not modelled.\<close>

datatype draw =
    Suptitle string
  | SetTitle "nat \<times> nat" string
  | SetXLabel "nat \<times> nat" string
  | SetYLabel "nat \<times> nat" string
  | SetZLabel "nat \<times> nat" string
  | SetXTicks "real list" "label list"
  | Boxplot "nat \<times> nat" string string "(label \<times> real) list"
  | Stripplot "nat \<times> nat" string string "(label \<times> real) list"
  | Bar "real list" "real option list" real string
  | Line "nat \<times> nat" "real list" "real list" label
  | Scatter3D "nat \<times> nat" "real list" "real list" "real list" label
  | Heatmap "nat \<times> nat" pivot
  | CorrHeatmap "float64 list list"
  | Pairplot "string list" "float64 list list"

datatype artifact = Png "draw list" | Csv frame

datatype printed = Text string | Frame frame

text \<open>The analyzer object (\<open>results_dir\<close>, \<open>results\<close>) together with the console, the
  files written and the directories made. The dict \<open>results\<close> is the list of its items in
  insertion order, each key once: \<open>map_of\<close> looks a key up and \<open>AList.update\<close> stores
  a value.\<close>

record state =
  results_dir :: string
  results :: "(string \<times> table) list"
  console :: "printed list"
  files :: "string \<rightharpoonup> artifact"
  dirs :: "string set"

definition print_line :: "string \<Rightarrow> state \<Rightarrow> state" where
  "print_line t s = s\<lparr>console := console s @ [Text t]\<rparr>"

definition print_frame :: "frame \<Rightarrow> state \<Rightarrow> state" where
  "print_frame fr s = s\<lparr>console := console s @ [Frame fr]\<rparr>"

text \<open>\<^verbatim>\<open>plots_dir / name\<close> and its text.\<close>

definition path_join :: "string \<Rightarrow> string \<Rightarrow> string" where
  "path_join d name = d @ ''/'' @ name"

definition savefig :: "string \<Rightarrow> draw list \<Rightarrow> state \<Rightarrow> state" where
  "savefig path fig s = s\<lparr>files := (files s)(path \<mapsto> Png fig)\<rparr>"

definition to_csv :: "string \<Rightarrow> frame \<Rightarrow> state \<Rightarrow> state" where
  "to_csv path fr s = s\<lparr>files := (files s)(path \<mapsto> Csv fr)\<rparr>"

definition mkdir :: "string \<Rightarrow> state \<Rightarrow> state" where
  "mkdir d s = s\<lparr>dirs := insert d (dirs s)\<rparr>"

text \<open>A method that may raise returns the state it reached and the exception, if any;
  the next statement runs only after a normal return.\<close>

definition next_step :: "state \<times> py_error option \<Rightarrow> (state \<Rightarrow> state \<times> py_error option) \<Rightarrow> state \<times> py_error option" where
  "next_step r f = (case snd r of None \<Rightarrow> f (fst r) | Some e \<Rightarrow> r)"

text \<open>The pictographs of the messages, as their UTF-8 bytes.\<close>

definition sym_chart :: string where "sym_chart = [CHR 0xF0, CHR 0x9F, CHR 0x93, CHR 0x8A]"
definition sym_cross :: string where "sym_cross = [CHR 0xE2, CHR 0x9D, CHR 0x8C]"
definition sym_check :: string where "sym_check = [CHR 0xE2, CHR 0x9C, CHR 0x85]"
definition sym_palette :: string where "sym_palette = [CHR 0xF0, CHR 0x9F, CHR 0x8E, CHR 0xA8]"
definition sym_rising :: string where "sym_rising = [CHR 0xF0, CHR 0x9F, CHR 0x93, CHR 0x88]"
definition sym_globe :: string where "sym_globe = [CHR 0xF0, CHR 0x9F, CHR 0x8C, CHR 0x8D]"
definition sym_link :: string where "sym_link = [CHR 0xF0, CHR 0x9F, CHR 0x94, CHR 0x97]"
definition sym_map :: string where
  "sym_map = [CHR 0xF0, CHR 0x9F, CHR 0x97, CHR 0xBA, CHR 0xEF, CHR 0xB8, CHR 0x8F]"
definition sym_clipboard :: string where "sym_clipboard = [CHR 0xF0, CHR 0x9F, CHR 0x93, CHR 0x8B]"
definition sym_page :: string where "sym_page = [CHR 0xF0, CHR 0x9F, CHR 0x93, CHR 0x84]"
definition sym_warning :: string where
  "sym_warning = [CHR 0xE2, CHR 0x9A, CHR 0xA0, CHR 0xEF, CHR 0xB8, CHR 0x8F]"
definition sym_trophy :: string where "sym_trophy = [CHR 0xF0, CHR 0x9F, CHR 0x8F, CHR 0x86]"
definition sym_rocket :: string where "sym_rocket = [CHR 0xF0, CHR 0x9F, CHR 0x9A, CHR 0x80]"
definition sym_party :: string where "sym_party = [CHR 0xF0, CHR 0x9F, CHR 0x8E, CHR 0x89]"
definition sym_folder :: string where "sym_folder = [CHR 0xF0, CHR 0x9F, CHR 0x93, CHR 0x81]"

subsection \<open>Loading the tables (\<^verbatim>\<open>load_data\<close>)\<close>

text \<open>The input directory, as the loader meets it: the names of its entries in the
  order the directory scan yields them, each with what \<^verbatim>\<open>pd.read_csv\<close> does on it (the
  table, or the message of the exception it raises).\<close>

datatype read_csv = Parsed table | Failed string

type_synonym directory = "(string \<times> read_csv) list"

text \<open>\<^verbatim>\<open>glob("*.csv")\<close>: the entries whose name ends in \<^verbatim>\<open>.csv\<close>.\<close>

definition matches_csv :: "string \<Rightarrow> bool" where
  "matches_csv name = (4 \<le> length name \<and> drop (length name - 4) name = ''.csv'')"

definition glob_csv :: "directory \<Rightarrow> directory" where
  "glob_csv d = filter (\<lambda>(name, r). matches_csv name) d"

text \<open>\<^verbatim>\<open>Path.stem\<close>: the name up to its last dot, when that dot is neither the first nor
  the last character of the name; the whole name otherwise.\<close>

fun rfind :: "char \<Rightarrow> string \<Rightarrow> nat option" where
  "rfind c [] = None"
| "rfind c (x # xs) =
     (case rfind c xs of
        Some i \<Rightarrow> Some (Suc i)
      | None \<Rightarrow> if x = c then Some 0 else None)"

definition stem :: "string \<Rightarrow> string" where
  "stem name = (case rfind (CHR ''.'') name of
      None \<Rightarrow> name
    | Some i \<Rightarrow> if 0 < i \<and> Suc i < length name then take i name else name)"

text \<open>The loop of lines 35 to 42 over the files found.\<close>

fun load_files :: "directory \<Rightarrow> state \<Rightarrow> state" where
  "load_files [] s = s"
| "load_files ((name, r) # csv_files) s =
     load_files csv_files
       (case r of
          Parsed df \<Rightarrow>
            print_line (''  '' @ sym_check @ '' Loaded '' @ stem name @ '': ''
                          @ show_nat (length df) @ '' records'')
              (s\<lparr>results := AList.update (stem name) df (results s)\<rparr>)
        | Failed e \<Rightarrow>
            print_line (''  '' @ sym_cross @ '' Error loading ''
                          @ path_join (results_dir s) name @ '': '' @ e) s)"

definition load_data :: "directory \<Rightarrow> state \<Rightarrow> state" where
  "load_data d s =
     (let s1 = print_line (sym_chart @ '' Loading results data...'') s;
          csv_files = glob_csv d
      in if csv_files = []
         then print_line (sym_cross @ '' No CSV files found in '' @ results_dir s1) s1
         else load_files csv_files s1)"

text \<open>\<^verbatim>\<open>__init__\<close>: the directory's name is kept, the mapping starts empty, and the tables
  are loaded.\<close>

definition init_analyzer :: "string \<Rightarrow> directory \<Rightarrow> state \<Rightarrow> state" where
  "init_analyzer dir_name d s = load_data d (s\<lparr>results_dir := dir_name, results := []\<rparr>)"

subsection \<open>The six reports\<close>

text \<open>
  Each report prints its progress line, returns when the mapping has no
  \<^verbatim>\<open>comprehensive_results\<close> table, and otherwise draws its figures from the table and
  saves them. A figure is the list of the drawing calls made for it. What the plotting
  library does with a table that has no rows is not modelled; the one exception the
  model keeps for such a table is the \<^verbatim>\<open>ValueError\<close> of \<^verbatim>\<open>idxmin\<close> on an empty Series.
\<close>

definition comparison_metrics :: "(string \<times> column) list" where
  "comparison_metrics =
     [(''TotalCost'', TotalCost), (''Makespan'', Makespan),
      (''DeadlineHitRate'', DeadlineHitRate), (''ExecutionTime'', ExecutionTime),
      (''EnergyConsumption'', EnergyConsumption), (''FogUtilization'', FogUtilization)]"

definition comparison_titles :: "string list" where
  "comparison_titles =
     [''Total Cost ($)'', ''Makespan (s)'', ''Deadline Hit Rate'', ''Execution Time (ms)'',
      ''Energy (Wh)'', ''Fog Utilization'']"

definition algorithm_comparison_figure :: "table \<Rightarrow> draw list" where
  "algorithm_comparison_figure df =
     Suptitle ''IIoT Scheduler Algorithm Performance Comparison'' #
     concat (map (\<lambda>(i, (metric, col), title).
         [Boxplot (i div 3, i mod 3) ''Algorithm'' metric (map (\<lambda>r. (Algorithm r, col r)) df),
          SetTitle (i div 3, i mod 3) title])
       (enumerate 0 (zip comparison_metrics comparison_titles)))"

text \<open>The bar chart of lines 106 to 128: \<open>avg_performance\<close> is the frame of group means,
  and its columns are handed to \<^verbatim>\<open>ax.bar\<close> as the heights.\<close>

definition average_performance_figure :: "table \<Rightarrow> draw list" where
  "average_performance_figure df =
     (let avg_performance = (\<lambda>col. map snd (groupby_mean col df));
          x = map real [0 ..< length (group_keys df)];
          width = 0.25
      in [Bar (map (\<lambda>v. v - width) x) (avg_performance TotalCost) width ''Total Cost'',
          Bar x (avg_performance Makespan) width ''Makespan'',
          Bar (map (\<lambda>v. v + width) x) (avg_performance DeadlineHitRate) width
            ''Deadline Hit Rate'',
          SetXLabel (0, 0) ''Algorithm'',
          SetYLabel (0, 0) ''Normalized Performance'',
          SetTitle (0, 0) ''Average Algorithm Performance (Normalized)'',
          SetXTicks x (group_keys df)])"

definition plot_algorithm_comparison :: "string \<Rightarrow> state \<Rightarrow> state \<times> py_error option" where
  "plot_algorithm_comparison plots_dir s =
     (let s1 = print_line (''  '' @ sym_rising @ '' Creating algorithm comparison plots...'') s
      in case map_of (results s1) ''comprehensive_results'' of
           None \<Rightarrow> (s1, None)
         | Some df \<Rightarrow>
             (savefig (path_join plots_dir ''average_performance.png'')
                (average_performance_figure df)
                (savefig (path_join plots_dir ''algorithm_comparison.png'')
                   (algorithm_comparison_figure df) s1),
              None))"

definition scenario_analysis_figure :: "table \<Rightarrow> draw list" where
  "scenario_analysis_figure df =
     [Suptitle ''Performance Analysis Across Scenarios'',
      Boxplot (0, 0) ''Scenario'' ''TotalCost'' (map (\<lambda>r. (StrKey (Scenario r), TotalCost r)) df),
      SetTitle (0, 0) ''Total Cost by Scenario'',
      Boxplot (0, 1) ''Scenario'' ''Makespan'' (map (\<lambda>r. (StrKey (Scenario r), Makespan r)) df),
      SetTitle (0, 1) ''Makespan by Scenario'',
      Boxplot (1, 0) ''Scenario'' ''DeadlineHitRate''
        (map (\<lambda>r. (StrKey (Scenario r), DeadlineHitRate r)) df),
      SetTitle (1, 0) ''Deadline Hit Rate by Scenario'',
      Heatmap (1, 1) (pivot_table TotalCost df),
      SetTitle (1, 1) ''Total Cost: Algorithm vs Scenario'']"

definition plot_scenario_analysis :: "string \<Rightarrow> state \<Rightarrow> state \<times> py_error option" where
  "plot_scenario_analysis plots_dir s =
     (let s1 = print_line (''  '' @ sym_globe @ '' Creating scenario analysis plots...'') s
      in case map_of (results s1) ''comprehensive_results'' of
           None \<Rightarrow> (s1, None)
         | Some df \<Rightarrow>
             (savefig (path_join plots_dir ''scenario_analysis.png'')
                (scenario_analysis_figure df) s1,
              None))"

text \<open>The figure of lines 181 to 231, drawn from \<open>scalability_df\<close> alone.\<close>

definition scalability_figure :: "table \<Rightarrow> draw list" where
  "scalability_figure scalability_df =
     (let algorithms = unique (map Algorithm scalability_df);
          alg_data = (\<lambda>algorithm. filter (\<lambda>r. Algorithm r = algorithm) scalability_df);
          tasks = (\<lambda>a. map (\<lambda>r. real_of_int (TaskCount r)) (alg_data a));
          nodes = (\<lambda>a. map (\<lambda>r. real_of_int (NodeCount r)) (alg_data a));
          cost = (\<lambda>a. map TotalCost (alg_data a));
          time = (\<lambda>a. map ExecutionTime (alg_data a))
      in [Suptitle ''Scalability Analysis'']
         @ map (\<lambda>a. Line (0, 0) (tasks a) (cost a) a) algorithms
         @ [SetXLabel (0, 0) ''Number of Tasks'', SetYLabel (0, 0) ''Total Cost ($)'',
            SetTitle (0, 0) ''Cost vs Task Count'']
         @ map (\<lambda>a. Line (0, 1) (nodes a) (cost a) a) algorithms
         @ [SetXLabel (0, 1) ''Number of Nodes'', SetYLabel (0, 1) ''Total Cost ($)'',
            SetTitle (0, 1) ''Cost vs Node Count'']
         @ map (\<lambda>a. Line (1, 0) (tasks a) (time a) a) algorithms
         @ [SetXLabel (1, 0) ''Number of Tasks'', SetYLabel (1, 0) ''Execution Time (ms)'',
            SetTitle (1, 0) ''Execution Time vs Task Count'']
         @ map (\<lambda>a. Scatter3D (1, 1) (tasks a) (nodes a) (cost a) a) algorithms
         @ [SetXLabel (1, 1) ''Tasks'', SetYLabel (1, 1) ''Nodes'', SetZLabel (1, 1) ''Cost ($)'',
            SetTitle (1, 1) ''3D: Tasks vs Nodes vs Cost''])"

definition plot_scalability_analysis :: "string \<Rightarrow> state \<Rightarrow> state \<times> py_error option" where
  "plot_scalability_analysis plots_dir s =
     (let s1 = print_line (''  '' @ sym_chart @ '' Creating scalability analysis plots...'') s
      in case map_of (results s1) ''comprehensive_results'' of
           None \<Rightarrow> (s1, None)
         | Some df \<Rightarrow>
             (let scalability_df = filter (\<lambda>r. Scenario r = ''Scalability'') df
              in if length scalability_df = 0
                 then (print_line (''    '' @ sym_warning @ ''  No scalability data found'') s1,
                       None)
                 else (savefig (path_join plots_dir ''scalability_analysis.png'')
                         (scalability_figure scalability_df) s1,
                       None)))"

definition numeric_cols :: "(string \<times> column) list" where
  "numeric_cols =
     [(''TaskCount'', \<lambda>r. real_of_int (TaskCount r)),
      (''NodeCount'', \<lambda>r. real_of_int (NodeCount r)),
      (''TotalCost'', TotalCost), (''Makespan'', Makespan),
      (''DeadlineHitRate'', DeadlineHitRate), (''ExecutionTime'', ExecutionTime),
      (''EnergyConsumption'', EnergyConsumption), (''FogUtilization'', FogUtilization),
      (''CloudUtilization'', CloudUtilization)]"

definition key_metrics :: "(string \<times> column) list" where
  "key_metrics =
     [(''TotalCost'', TotalCost), (''Makespan'', Makespan),
      (''DeadlineHitRate'', DeadlineHitRate), (''ExecutionTime'', ExecutionTime)]"

definition plot_correlation_analysis :: "string \<Rightarrow> state \<Rightarrow> state \<times> py_error option" where
  "plot_correlation_analysis plots_dir s =
     (let s1 = print_line (''  '' @ sym_link @ '' Creating correlation analysis plots...'') s
      in case map_of (results s1) ''comprehensive_results'' of
           None \<Rightarrow> (s1, None)
         | Some df \<Rightarrow>
             (let correlation_df = corr (map snd numeric_cols) df;
                  s2 = savefig (path_join plots_dir ''correlation_matrix.png'')
                         [CorrHeatmap correlation_df,
                          SetTitle (0, 0) ''Metric Correlation Matrix''] s1;
                  scatter_df = dropna_rows
                    (map (\<lambda>r. map (\<lambda>(name, col). round64 (col r)) key_metrics) df)
              in if length scatter_df > 0
                 then (savefig (path_join plots_dir ''scatter_matrix.png'')
                         [Pairplot (map fst key_metrics) scatter_df,
                          Suptitle ''Key Metrics Scatter Plot Matrix''] s2,
                       None)
                 else (s2, None)))"

definition heatmap_titles :: "string list" where
  "heatmap_titles =
     [''Total Cost ($)'', ''Makespan (s)'', ''Deadline Hit Rate'', ''Execution Time (ms)'']"

definition performance_heatmaps_figure :: "table \<Rightarrow> draw list" where
  "performance_heatmaps_figure df =
     Suptitle ''Performance Heatmaps: Algorithm vs Scenario'' #
     concat (map (\<lambda>(i, (metric, col), title).
         [Heatmap (i div 2, i mod 2) (pivot_table col df), SetTitle (i div 2, i mod 2) title])
       (enumerate 0 (zip key_metrics heatmap_titles)))"

definition plot_performance_heatmaps :: "string \<Rightarrow> state \<Rightarrow> state \<times> py_error option" where
  "plot_performance_heatmaps plots_dir s =
     (let s1 = print_line (''  '' @ sym_map @ ''  Creating performance heatmaps...'') s
      in case map_of (results s1) ''comprehensive_results'' of
           None \<Rightarrow> (s1, None)
         | Some df \<Rightarrow>
             (savefig (path_join plots_dir ''performance_heatmaps.png'')
                (performance_heatmaps_figure df) s1,
              None))"

definition statistical_summary_figure :: "table \<Rightarrow> draw list" where
  "statistical_summary_figure df =
     Suptitle ''Statistical Summary by Algorithm'' #
     concat (map (\<lambda>(i, (metric, col), title).
         [Boxplot (i div 2, i mod 2) ''Algorithm'' metric (map (\<lambda>r. (Algorithm r, col r)) df),
          Stripplot (i div 2, i mod 2) ''Algorithm'' metric (map (\<lambda>r. (Algorithm r, col r)) df),
          SetTitle (i div 2, i mod 2) title])
       (enumerate 0 (zip key_metrics heatmap_titles)))"

text \<open>Lines 358 to 361: the four selections of the leaderboard, in the order they are
  computed.\<close>

definition leaderboard :: "table \<Rightarrow> py_error + label \<times> label \<times> label \<times> label" where
  "leaderboard df =
     and_then (idxmin (groupby_mean TotalCost df)) (\<lambda>best_cost.
     and_then (idxmin (groupby_mean Makespan df)) (\<lambda>best_makespan.
     and_then (idxmax (groupby_mean DeadlineHitRate df)) (\<lambda>best_deadline.
     and_then (idxmin (groupby_mean ExecutionTime df)) (\<lambda>best_time.
       Inr (best_cost, best_makespan, best_deadline, best_time)))))"

definition generate_statistical_summary :: "string \<Rightarrow> state \<Rightarrow> state \<times> py_error option" where
  "generate_statistical_summary plots_dir s =
     (let s1 = print_line (''  '' @ sym_clipboard @ '' Generating statistical summary...'') s
      in case map_of (results s1) ''comprehensive_results'' of
           None \<Rightarrow> (s1, None)
         | Some df \<Rightarrow>
             (let summary_stats = round_frame 4 (groupby_agg df);
                  summary_file = path_join plots_dir ''statistical_summary.csv'';
                  s2 = to_csv summary_file summary_stats s1;
                  s3 = print_line (''    '' @ sym_page @ '' Statistical summary saved to: ''
                                     @ summary_file) s2;
                  s4 = savefig (path_join plots_dir ''statistical_summary.png'')
                         (statistical_summary_figure df) s3;
                  s5 = print_line (newline # sym_chart @ '' STATISTICAL SUMMARY:'') s4;
                  s6 = print_line (replicate 50 (CHR ''='')) s5;
                  s7 = print_frame summary_stats s6;
                  s8 = print_line (newline # sym_trophy @ '' BEST PERFORMING ALGORITHMS:'') s7;
                  s9 = print_line (replicate 50 (CHR ''='')) s8
              in case leaderboard df of
                   Inl e \<Rightarrow> (s9, Some e)
                 | Inr (best_cost, best_makespan, best_deadline, best_time) \<Rightarrow>
                     (print_line (''Fastest Execution: '' @ label_text best_time)
                       (print_line (''Highest Deadline Hit Rate: '' @ label_text best_deadline)
                         (print_line (''Lowest Makespan: '' @ label_text best_makespan)
                           (print_line (''Lowest Cost: '' @ label_text best_cost) s9))),
                      None)))"

subsection \<open>The run\<close>

definition create_comprehensive_analysis :: "state \<Rightarrow> state \<times> py_error option" where
  "create_comprehensive_analysis s =
     (if results s = []
      then (print_line (sym_cross @ '' No data to analyze'') s, None)
      else
        let s1 = print_line (newline # sym_palette @ '' Creating comprehensive analysis...'') s;
            plots_dir = ''analysis_plots'';
            s2 = mkdir plots_dir s1
        in next_step (next_step (next_step (next_step (next_step (next_step
             (plot_algorithm_comparison plots_dir s2)
             (plot_scenario_analysis plots_dir))
             (plot_scalability_analysis plots_dir))
             (plot_correlation_analysis plots_dir))
             (plot_performance_heatmaps plots_dir))
             (generate_statistical_summary plots_dir))
             (\<lambda>s3. (print_line (newline # sym_check @ '' Analysis completed! Plots saved to: ''
                                   @ plots_dir) s3, None)))"

text \<open>A process that has printed, written and made nothing yet.\<close>

definition fresh :: state where
  "fresh = \<lparr>results_dir = [], results = [], console = [], files = Map.empty, dirs = {}\<rparr>"

text \<open>Lines 370 and 371: the banner that \<^verbatim>\<open>main\<close> prints before it makes the analyzer.\<close>

definition banner :: state where
  "banner = print_line (replicate 40 (CHR ''=''))
              (print_line (sym_rocket @ '' IIoT Scheduler Results Analyzer'') fresh)"

definition main :: "directory \<Rightarrow> state \<times> py_error option" where
  "main d =
     (let analyzer = init_analyzer ''quick_results'' d banner
      in next_step (create_comprehensive_analysis analyzer)
           (\<lambda>s3. (print_line (sym_folder
                       @ '' Check the 'analysis_plots' directory for all visualizations'')
                     (print_line (newline # sym_party @ '' Analysis completed successfully!'') s3),
                   None)))"

section \<open>Notions used in the statements\<close>

subsection \<open>What the specification speaks of\<close>

text \<open>The line that reports one file of the directory.\<close>

definition report_line :: "string \<Rightarrow> string \<times> read_csv \<Rightarrow> printed" where
  "report_line dir_name f = (case f of
      (name, Parsed df) \<Rightarrow>
        Text (''  '' @ sym_check @ '' Loaded '' @ stem name @ '': '' @ show_nat (length df)
              @ '' records'')
    | (name, Failed e) \<Rightarrow>
        Text (''  '' @ sym_cross @ '' Error loading '' @ dir_name @ ''/'' @ name @ '': '' @ e))"

text \<open>The arithmetic mean of a column over the rows of one Algorithm.\<close>

definition group_mean :: "column \<Rightarrow> table \<Rightarrow> label \<Rightarrow> real" where
  "group_mean col df a =
     sum_list (map col (get_group a df)) / real (length (get_group a df))"

text \<open>An Algorithm of the table whose group mean is the least (the greatest); among
  Algorithms with that mean, the one that is least in the order of labels (numbers by
  value, strings character by character).\<close>

definition lowest :: "column \<Rightarrow> table \<Rightarrow> label \<Rightarrow> bool" where
  "lowest col df a =
     (a \<in> Algorithm ` set df \<and>
      (\<forall>b \<in> Algorithm ` set df.
         group_mean col df a \<le> group_mean col df b \<and>
         (group_mean col df b = group_mean col df a \<longrightarrow> a \<le> b)))"

definition highest :: "column \<Rightarrow> table \<Rightarrow> label \<Rightarrow> bool" where
  "highest col df a =
     (a \<in> Algorithm ` set df \<and>
      (\<forall>b \<in> Algorithm ` set df.
         group_mean col df b \<le> group_mean col df a \<and>
         (group_mean col df b = group_mean col df a \<longrightarrow> a \<le> b)))"

text \<open>The population variance of a column, the quantity whose vanishing makes Pearson's
  coefficient undefined.\<close>

definition variance :: "real list \<Rightarrow> real" where
  "variance xs = sum_list (map (\<lambda>x. (x - sum_list xs / real (length xs))\<^sup>2) xs) / real (length xs)"

text \<open>The standard deviation with Bessel's correction (divisor \<open>n - 1\<close>), undefined for
  fewer than two values, and the population one (divisor \<open>n\<close>).\<close>

definition sample_std :: "real list \<Rightarrow> real option" where
  "sample_std xs =
     (if length xs < 2 then None
      else Some (sqrt (sum_list (map (\<lambda>x. (x - sum_list xs / real (length xs))\<^sup>2) xs)
                        / (real (length xs) - 1))))"

definition population_std :: "real list \<Rightarrow> real option" where
  "population_std xs =
     (if xs = [] then None
      else Some (sqrt (sum_list (map (\<lambda>x. (x - sum_list xs / real (length xs))\<^sup>2) xs)
                        / real (length xs))))"

text \<open>The four statistics of a group's values, in the order of the summary: mean, sample
  standard deviation, least and greatest value.\<close>

definition spec_stats :: "real list \<Rightarrow> real option list" where
  "spec_stats xs =
     [Some (sum_list xs / real (length xs)), sample_std xs, Some (Min (set xs)), Some (Max (set xs))]"


subsection \<open>float64 numbers and the sums of the correlation\<close>

text \<open>The finite float64 numbers: the grid that \<open>round64\<close> rounds to.\<close>

definition is_float64 :: "real \<Rightarrow> bool" where
  "is_float64 y =
     (\<exists>m e. y = of_int m * 2 powi e \<and> \<bar>m\<bar> < 2 ^ 53 \<and> - 1074 \<le> e \<and> \<bar>y\<bar> < 2 ^ 1024)"

text \<open>The sum of squared deviations that \<^verbatim>\<open>nancorr\<close> accumulates for a column, and the
  range in which its square neither overflows nor underflows.\<close>

definition float_ssqdm :: "float64 list \<Rightarrow> float64" where
  "float_ssqdm xs = ssqdm_x (foldl welford_step welford_init (zip xs xs))"

fun square_in_range :: "float64 \<Rightarrow> bool" where
  "square_in_range (Fin s) = (2 powi (- 511) \<le> s \<and> s < 2 powi 511)"
| "square_in_range _ = False"

text \<open>What the loop of \<^verbatim>\<open>nancorr\<close> keeps true: on the diagonal, where the two columns
  are one; and for a column whose cells are all the float64 \<open>c\<close>.\<close>

definition diagonal_state :: "welford \<Rightarrow> bool" where
  "diagonal_state w =
     (meany w = meanx w \<and> ssqdm_y w = ssqdm_x w \<and> covxy w = ssqdm_x w \<and>
      (nobs w = 0 \<longrightarrow> ssqdm_x w = Fin 0) \<and> (\<forall>s. ssqdm_x w = Fin s \<longrightarrow> is_float64 s))"

definition constant_x :: "float64 \<Rightarrow> welford \<Rightarrow> bool" where
  "constant_x c w =
     (ssqdm_x w = Fin 0 \<and> (nobs w = 0 \<longrightarrow> meanx w = Fin 0) \<and> (0 < nobs w \<longrightarrow> meanx w = c))"

definition constant_y :: "float64 \<Rightarrow> welford \<Rightarrow> bool" where
  "constant_y c w =
     (ssqdm_y w = Fin 0 \<and> (nobs w = 0 \<longrightarrow> meany w = Fin 0) \<and> (0 < nobs w \<longrightarrow> meany w = c))"

subsection \<open>Example inputs\<close>

text \<open>A row with the given Algorithm (a text), Scenario, task and node counts, cost,
  makespan, deadline hit rate and execution time.\<close>

definition mk_row :: "string \<Rightarrow> string \<Rightarrow> int \<Rightarrow> int \<Rightarrow> real \<Rightarrow> real \<Rightarrow> real \<Rightarrow> real \<Rightarrow> result_row" where
  "mk_row a sc tasks nodes cost mk dhr et =
     \<lparr>Algorithm = StrKey a, Scenario = sc, TaskCount = tasks, NodeCount = nodes, TotalCost = cost,
      Makespan = mk, DeadlineHitRate = dhr, ExecutionTime = et, EnergyConsumption = 0,
      FogUtilization = 0, CloudUtilization = 0\<rparr>"

text \<open>Two directories in which a file named \<^verbatim>\<open>.csv.csv\<close> lies beside one named
  \<^verbatim>\<open>.csv\<close>: both names end in \<^verbatim>\<open>.csv\<close> and both have the stem \<^verbatim>\<open>.csv\<close>. In the
  first the second file fails to parse, in the second it parses to an empty table.\<close>

definition dot_dir :: directory where
  "dot_dir =
     [(''.csv.csv'', Parsed [mk_row ''GA'' ''Baseline'' 10 2 1 2 1 3]),
      (''.csv'', Failed ''No columns to parse from file'')]"

definition dot_dir_parsed :: directory where
  "dot_dir_parsed =
     [(''.csv.csv'', Parsed [mk_row ''GA'' ''Baseline'' 10 2 1 2 1 3]),
      (''.csv'', Parsed [])]"

text \<open>An analyzer holding one table, the primary one.\<close>

definition with_table :: "table \<Rightarrow> state" where
  "with_table df = fresh\<lparr>results := [(''comprehensive_results'', df)]\<rparr>"

definition no_csv_dir :: directory where
  "no_csv_dir = [(''README.md'', Failed ''not a table''), (''results.CSV'', Parsed [])]"

definition mixed_dir :: directory where
  "mixed_dir =
     [(''broken.csv'', Failed ''No columns to parse from file''),
      (''comprehensive_results.csv'', Parsed [mk_row ''GA'' ''Baseline'' 10 2 1 2 1 3]),
      (''notes.txt'', Failed ''never read'')]"

definition side_dir :: directory where
  "side_dir = [(''energy.csv'', Parsed [mk_row ''GA'' ''Baseline'' 10 2 1 2 1 3])]"

definition demo_table :: table where
  "demo_table =
     [mk_row ''GA'' ''Scalability'' 10 2 200 50 (9 / 10) 3,
      mk_row ''PSO'' ''Baseline'' 20 2 100 40 (1 / 2) 4,
      mk_row ''GA'' ''Scalability'' 20 4 400 70 (7 / 10) 5]"

definition tie_table :: table where
  "tie_table =
     [mk_row ''B'' ''Baseline'' 10 2 1 2 (1 / 2) 3,
      mk_row ''A'' ''Baseline'' 10 2 1 4 (1 / 4) 5]"

text \<open>A table whose Algorithm column holds whole numbers, so that the reader types it as
  an integer column: 10 first, then 9, with the same mean TotalCost.\<close>

definition numbered_table :: table where
  "numbered_table =
     [(mk_row [] ''Baseline'' 10 2 1 2 (1 / 2) 3)\<lparr>Algorithm := IntKey 10\<rparr>,
      (mk_row [] ''Baseline'' 10 2 1 4 (1 / 4) 5)\<lparr>Algorithm := IntKey 9\<rparr>]"

definition corr_table :: table where
  "corr_table =
     [mk_row ''GA'' ''Baseline'' 10 2 1 2 1 3, mk_row ''PSO'' ''Baseline'' 20 2 3 4 1 3]"

text \<open>A table with costs near \<open>4.1e180\<close> and \<open>1.2e181\<close> and makespans near \<open>2.0e90\<close>
  and \<open>6.1e90\<close>, all float64 numbers.\<close>

definition huge_table :: table where
  "huge_table =
     [mk_row ''GA'' ''Baseline'' 10 2 (2 ^ 600) (2 ^ 300) 1 3,
      mk_row ''PSO'' ''Baseline'' 20 2 (3 * 2 ^ 600) (3 * 2 ^ 300) 1 3]"

definition summary_table :: table where
  "summary_table =
     [mk_row ''GA'' ''Baseline'' 10 2 1.00004 10 0.25 3,
      mk_row ''PSO'' ''Baseline'' 10 2 7 8 0.5 9,
      mk_row ''GA'' ''Baseline'' 20 2 2.00004 20 0.5 5,
      mk_row ''GA'' ''Baseline'' 30 2 3.00004 30 0.75 7]"


text \<open>A state whose mapping holds a table, but not the primary one.\<close>

definition other_table_state :: state where
  "other_table_state = fresh\<lparr>results := [(''energy'', demo_table)]\<rparr>"
chapter \<open>Verification\<close>

section \<open>binary64 arithmetic\<close>

subsection \<open>Rounding to an integer\<close>

lemma rint_of_int: "rint (of_int n) = n"
  by (simp add: rint_def)

lemma rint_close: "\<bar>of_int (rint y) - y\<bar> \<le> 1 / 2"
proof -
  have "0 \<le> y - of_int \<lfloor>y\<rfloor>" "y - of_int \<lfloor>y\<rfloor> < 1"
    by linarith+
  then show ?thesis
    by (auto simp add: rint_def Let_def)
qed

lemma rint_ge: "of_int k \<le> y \<Longrightarrow> k \<le> rint y"
proof -
  assume "of_int k \<le> y"
  then have "k \<le> \<lfloor>y\<rfloor>" by (simp add: le_floor_iff)
  moreover have "\<lfloor>y\<rfloor> \<le> rint y" by (simp add: rint_def Let_def)
  ultimately show ?thesis by simp
qed

lemma rint_le: "y \<le> of_int k \<Longrightarrow> rint y \<le> k"
proof -
  assume a: "y \<le> of_int k"
  show ?thesis
  proof (cases "y = of_int k")
    case True then show ?thesis by (simp add: rint_of_int)
  next
    case False
    with a have "y < of_int k" by simp
    then have "\<lfloor>y\<rfloor> < k" by (simp add: floor_less_iff)
    moreover have "rint y \<le> \<lfloor>y\<rfloor> + 1" by (simp add: rint_def Let_def)
    ultimately show ?thesis by simp
  qed
qed

lemma rint_nearest: "\<bar>y - of_int k\<bar> < 1 / 2 \<Longrightarrow> rint y = k"
proof -
  assume a: "\<bar>y - of_int k\<bar> < 1 / 2"
  have b: "\<bar>of_int (rint y) - y\<bar> \<le> 1 / 2" by (rule rint_close)
  from a b have "\<bar>(of_int (rint y) :: real) - of_int k\<bar> < 1" by linarith
  then have "\<bar>rint y - k\<bar> < 1"
    by (metis of_int_abs of_int_diff of_int_less_1_iff)
  then show ?thesis by simp
qed

subsection \<open>Rounding to a float64\<close>

lemma powr_powi: "(2::real) powr real_of_int n = 2 powi n"
  by (simp add: powr_real_of_int')

lemma expo_iff:
  assumes "x \<noteq> 0"
  shows "(expo x = k) = (2 powi k \<le> \<bar>x\<bar> \<and> \<bar>x\<bar> < 2 powi (k + 1))"
proof -
  have "0 < \<bar>x\<bar>" using assms by simp
  from floor_log_eq_powr_iff [OF this, of 2 k] show ?thesis
    unfolding powr_powi expo_def by simp
qed

lemma expo_bounds:
  assumes "x \<noteq> 0"
  shows "2 powi (expo x) \<le> \<bar>x\<bar>" "\<bar>x\<bar> < 2 powi (expo x + 1)"
  using expo_iff [OF assms, of "expo x"] by simp_all

lemma expo_eqI:
  assumes "2 powi k \<le> \<bar>x\<bar>" "\<bar>x\<bar> < 2 powi (k + 1)"
  shows "expo x = k"
proof -
  have "(0::real) < 2 powi k" by simp
  with assms(1) have "x \<noteq> 0" by (cases "x = 0") simp_all
  from expo_iff [OF this, of k] assms show ?thesis by simp
qed

lemma expo_less:
  assumes "x \<noteq> 0" "\<bar>x\<bar> < 2 powi k"
  shows "expo x < k"
proof (rule ccontr)
  assume "\<not> expo x < k"
  then have "k \<le> expo x" by simp
  then have "(2::real) powi k \<le> 2 powi (expo x)"
    by (intro power_int_increasing) simp_all
  with expo_bounds(1) [OF assms(1)] assms(2) show False by linarith
qed

lemma quantum_pos: "0 < quantum x"
  by (simp add: quantum_def)

text \<open>A number of the grid is its own rounding.\<close>

lemma round64_exact:
  assumes "is_float64 y"
  shows "round64 y = Fin y"
proof (cases "y = 0")
  case True then show ?thesis by (simp add: round64_def)
next
  case False
  from assms obtain m e where y: "y = of_int m * 2 powi e" and m: "\<bar>m\<bar> < 2 ^ 53"
    and e: "- 1074 \<le> e" and fin: "\<bar>y\<bar> < 2 ^ 1024"
    by (auto simp add: is_float64_def)
  define q where "q = max (expo y - 52) (- 1074)"
  have "\<bar>y\<bar> = of_int \<bar>m\<bar> * 2 powi e" by (simp add: y abs_mult)
  also have "\<dots> < 2 ^ 53 * 2 powi e"
  proof -
    from m have "(of_int \<bar>m\<bar> :: real) < of_int (2 ^ 53)" by (simp only: of_int_less_iff)
    then show ?thesis by simp
  qed
  also have "\<dots> = 2 powi (53 + e)" by (simp add: power_int_add)
  finally have "\<bar>y\<bar> < 2 powi (53 + e)" .
  from expo_less [OF False this] have "expo y - 52 \<le> e" by simp
  with e have qe: "q \<le> e" by (simp add: q_def)
  then obtain d where d: "e = q + int d"
    by (metis zle_iff_zadd)
  have "y / 2 powi q = of_int m * 2 ^ d"
    by (simp add: y d power_int_add)
  also have "\<dots> = of_int (m * 2 ^ d)" by simp
  finally have "rint (y / 2 powi q) = m * 2 ^ d"
    by (simp only: rint_of_int)
  then have "of_int (rint (y / 2 powi q)) * 2 powi q = y"
    by (simp add: y d power_int_add)
  with False fin show ?thesis
    by (simp add: round64_def quantum_def q_def [symmetric] Let_def)
qed

lemma quantum_binade:
  assumes "2 powi k \<le> \<bar>x\<bar>" "\<bar>x\<bar> < 2 powi (k + 1)" "- 1022 \<le> k"
  shows "quantum x = 2 powi (k - 52)"
proof -
  from assms(3) have "max (k - 52) (- 1074) = k - 52" by simp
  with expo_eqI [OF assms(1,2)] show ?thesis by (simp only: quantum_def)
qed

lemma scaled_distance:
  fixes q x m :: real
  assumes "0 < q"
  shows "\<bar>m * q - x\<bar> = \<bar>m - x / q\<bar> * q"
proof -
  from assms have "m * q - x = (m - x / q) * q" by (simp add: field_simps)
  then show ?thesis using assms by (simp only: abs_mult abs_of_pos)
qed

lemma quantum_ge: "x \<noteq> 0 \<Longrightarrow> \<bar>x\<bar> < 2 powi 53 * quantum x"
proof -
  assume x: "x \<noteq> 0"
  have "expo x + 1 \<le> 53 + max (expo x - 52) (- 1074)" by simp
  then have "(2::real) powi (expo x + 1) \<le> 2 powi (53 + max (expo x - 52) (- 1074))"
    by (intro power_int_increasing) simp_all
  also have "\<dots> = 2 powi 53 * quantum x"
    by (simp add: quantum_def power_int_add)
  finally show ?thesis using expo_bounds(2) [OF x] by linarith
qed

text \<open>The rounding of a number is a number of the grid.\<close>

lemma round64_grid:
  assumes "round64 x = Fin y"
  shows "is_float64 y"
proof (cases "x = 0")
  case True
  with assms have "y = 0" by (simp add: round64_def)
  then show ?thesis
    by (auto simp add: is_float64_def intro!: exI [of _ 0])
next
  case False
  define q where "q = max (expo x - 52) (- 1074)"
  define M where "M = rint (x / quantum x)"
  have Q: "quantum x = 2 powi q" by (simp add: quantum_def q_def)
  from assms False have y: "y = of_int M * 2 powi q" and fin: "\<bar>y\<bar> < 2 ^ 1024"
    by (auto simp add: round64_def Let_def M_def Q split: if_splits)
  have q: "- 1074 \<le> q" by (simp add: q_def)
  from quantum_ge [OF False] have "\<bar>x\<bar> / quantum x < 2 powi 53"
    using quantum_pos [of x] by (simp only: pos_divide_less_eq)
  then have "\<bar>x / quantum x\<bar> < 2 ^ 53"
    using quantum_pos [of x] by (simp add: abs_divide abs_of_pos)
  then have "x / quantum x \<le> 2 ^ 53" "- (2 ^ 53) \<le> x / quantum x"
    by linarith+
  then have b: "x / quantum x \<le> of_int (2 ^ 53)" "of_int (- (2 ^ 53)) \<le> x / quantum x"
    by simp_all
  have "M \<le> 2 ^ 53" unfolding M_def using b(1) by (rule rint_le)
  moreover have "- (2 ^ 53) \<le> M" unfolding M_def using b(2) by (rule rint_ge)
  ultimately have "M \<le> 2 ^ 53" "- (2 ^ 53) \<le> M" .
  then consider "\<bar>M\<bar> < 2 ^ 53" | "M = 2 ^ 53" | "M = - (2 ^ 53)"
    by linarith
  then show ?thesis
  proof cases
    case 1
    with y q fin show ?thesis
      unfolding is_float64_def by blast
  next
    case 2
    have "y = of_int (2 ^ 52) * 2 powi (q + 1)"
      by (simp add: y 2 power_int_add)
    moreover have "\<bar>2 ^ 52 :: int\<bar> < 2 ^ 53" by simp
    moreover have "- 1074 \<le> q + 1" using q by simp
    ultimately show ?thesis
      using fin unfolding is_float64_def by blast
  next
    case 3
    have "y = of_int (- (2 ^ 52)) * 2 powi (q + 1)"
      by (simp add: y 3 power_int_add)
    moreover have "\<bar>- (2 ^ 52) :: int\<bar> < 2 ^ 53" by simp
    moreover have "- 1074 \<le> q + 1" using q by simp
    ultimately show ?thesis
      using fin unfolding is_float64_def by blast
  qed
qed

lemma round64_idem: "round64 x = Fin y \<Longrightarrow> round64 y = Fin y"
  by (rule round64_exact) (rule round64_grid)

text \<open>Rounding moves a number by half a quantum at most.\<close>

lemma round64_close:
  assumes "round64 x = Fin y"
  shows "\<bar>y - x\<bar> \<le> quantum x / 2"
proof (cases "x = 0")
  case True
  with assms show ?thesis using quantum_pos [of x] by (simp add: round64_def)
next
  case False
  with assms have y: "y = of_int (rint (x / quantum x)) * quantum x"
    by (auto simp add: round64_def Let_def split: if_splits)
  have "\<bar>y - x\<bar> = \<bar>of_int (rint (x / quantum x)) - x / quantum x\<bar> * quantum x"
    unfolding y by (rule scaled_distance) (rule quantum_pos)
  also have "\<dots> \<le> 1 / 2 * quantum x"
    using quantum_pos [of x] by (intro mult_right_mono rint_close) simp
  finally show ?thesis by simp
qed

text \<open>Rounding stays in the binade: it does not cross a power of two.\<close>

lemma round64_binade:
  assumes "2 powi k \<le> x" "x < 2 powi (k + 1)" "- 1022 \<le> k"
  shows "round64 x = (let y = of_int (rint (x / 2 powi (k - 52))) * 2 powi (k - 52)
                      in if 2 ^ 1024 \<le> \<bar>y\<bar> then PosInf else Fin y)"
proof -
  have "(0::real) < 2 powi k" by simp
  with assms(1) have x: "0 < x" by linarith
  then have ax: "\<bar>x\<bar> = x" by simp
  from assms have "quantum x = 2 powi (k - 52)"
    by (intro quantum_binade) (simp_all add: ax)
  with x show ?thesis by (simp add: round64_def Let_def)
qed

lemma round64_finite:
  assumes "\<bar>x\<bar> \<le> 2 ^ 1023"
  shows "\<exists>y. round64 x = Fin y"
proof (cases "x = 0")
  case True then show ?thesis by (simp add: round64_def)
next
  case False
  define y where "y = of_int (rint (x / quantum x)) * quantum x"
  have "\<bar>y - x\<bar> = \<bar>of_int (rint (x / quantum x)) - x / quantum x\<bar> * quantum x"
    unfolding y_def by (rule scaled_distance) (rule quantum_pos)
  also have "\<dots> \<le> 1 / 2 * quantum x"
    using quantum_pos [of x] by (intro mult_right_mono rint_close) simp
  finally have c: "\<bar>y - x\<bar> \<le> quantum x / 2" by simp
  have "quantum x \<le> 2 ^ 1023"
  proof -
    from False assms have "\<bar>x\<bar> < 2 powi 1024" by simp
    from expo_less [OF False this] have "max (expo x - 52) (- 1074) \<le> 1023" by simp
    then have "(2::real) powi (max (expo x - 52) (- 1074)) \<le> 2 powi 1023"
      by (intro power_int_increasing) simp_all
    then show ?thesis by (simp add: quantum_def)
  qed
  moreover have "(2::real) ^ 1024 = 2 * 2 ^ 1023" by simp
  moreover have "(0::real) < 2 ^ 1023" by simp
  ultimately have "\<bar>y\<bar> < 2 ^ 1024" using c assms by linarith
  with False show ?thesis by (simp add: round64_def Let_def y_def)
qed

lemma round64_overflow:
  assumes "2 ^ 1024 \<le> x"
  shows "round64 x = PosInf"
proof -
  have x: "0 < x" "x \<noteq> 0" using assms by (smt (verit) zero_less_power)+
  have "(2::real) powi 1024 \<le> \<bar>x\<bar>" using assms x by simp
  have e: "1024 \<le> expo x"
  proof (rule ccontr)
    assume "\<not> 1024 \<le> expo x"
    then have "expo x + 1 \<le> 1024" by simp
    then have "(2::real) powi (expo x + 1) \<le> 2 powi 1024"
      by (intro power_int_increasing) simp_all
    with expo_bounds(2) [OF x(2)] \<open>2 powi 1024 \<le> \<bar>x\<bar>\<close> show False by linarith
  qed
  then have Q: "quantum x = 2 powi (expo x - 52)" by (simp add: quantum_def max_def)
  have "(2::real) powi 52 * quantum x = 2 powi (expo x)"
    by (simp add: Q power_int_diff)
  with expo_bounds(1) [OF x(2)] x have "of_int (2 ^ 52) \<le> x / quantum x"
    using quantum_pos [of x] by (simp add: pos_le_divide_eq)
  then have "2 ^ 52 \<le> rint (x / quantum x)" by (rule rint_ge)
  then have "(2::real) ^ 52 \<le> of_int (rint (x / quantum x))"
    by (metis of_int_le_iff of_int_numeral of_int_power)
  then have "2 ^ 52 * quantum x \<le> of_int (rint (x / quantum x)) * quantum x"
    using quantum_pos [of x] by (intro mult_right_mono) simp_all
  moreover have "(2::real) ^ 52 * quantum x = 2 powi (expo x)"
    by (simp add: Q power_int_diff)
  moreover have "(2::real) powi 1024 \<le> 2 powi (expo x)"
    using e by (intro power_int_increasing) simp_all
  ultimately have "2 ^ 1024 \<le> of_int (rint (x / quantum x)) * quantum x" by simp
  then have "2 ^ 1024 \<le> \<bar>of_int (rint (x / quantum x)) * quantum x\<bar>" by linarith
  with x show ?thesis by (simp add: round64_def Let_def)
qed

lemma is_float64I:
  assumes "\<bar>m\<bar> < 2 ^ 53" "- 1074 \<le> e" "\<bar>of_int m * 2 powi e :: real\<bar> < 2 ^ 1024"
  shows "is_float64 (of_int m * 2 powi e)"
  using assms unfolding is_float64_def by blast

lemma is_float64_0: "is_float64 0"
  unfolding is_float64_def by (intro exI [of _ 0]) simp

lemma is_float64_1: "is_float64 1"
  unfolding is_float64_def by (intro exI [of _ 1] exI [of _ 0]) simp

lemma round64_0: "round64 0 = Fin 0"
  by (simp add: round64_def)

lemma round64_1: "round64 1 = Fin 1"
  by (rule round64_exact) (rule is_float64_1)

lemma is_float64_minus: "is_float64 y \<Longrightarrow> is_float64 (- y)"
proof -
  assume "is_float64 y"
  then obtain m e where "y = of_int m * 2 powi e" "\<bar>m\<bar> < 2 ^ 53" "- 1074 \<le> e" "\<bar>y\<bar> < 2 ^ 1024"
    by (auto simp add: is_float64_def)
  then have "- y = of_int (- m) * 2 powi e \<and> \<bar>- m\<bar> < 2 ^ 53 \<and> - 1074 \<le> e \<and> \<bar>- y\<bar> < 2 ^ 1024"
    by simp
  then show ?thesis unfolding is_float64_def by blast
qed

text \<open>A normal number of the grid has a significand of 53 bits.\<close>

lemma is_float64_normal:
  assumes "is_float64 s" "2 powi k \<le> s" "s < 2 powi (k + 1)" "- 1022 \<le> k"
  obtains M where "s = of_int M * 2 powi (k - 52)" "2 ^ 52 \<le> M" "M < 2 ^ 53"
proof -
  define u :: real where "u = 2 powi (k - 52)"
  have u: "0 < u" by (simp add: u_def)
  define M where "M = rint (s / u)"
  from round64_exact [OF assms(1)] round64_binade [OF assms(2,3,4)]
  have s: "s = of_int M * u"
    by (simp add: Let_def M_def u_def split: if_splits)
  have k: "(2::real) powi k = 2 ^ 52 * u" "(2::real) powi (k + 1) = 2 ^ 53 * u"
    by (simp_all add: u_def power_int_diff power_int_add)
  from assms(2,3) have "2 ^ 52 * u \<le> of_int M * u" "of_int M * u < 2 ^ 53 * u"
    unfolding k s by simp_all
  with u have "(2::real) ^ 52 \<le> of_int M" "of_int M < (2::real) ^ 53"
    by simp_all
  then have "(of_int (2 ^ 52) :: real) \<le> of_int M" "(of_int M :: real) < of_int (2 ^ 53)"
    by simp_all
  then have "2 ^ 52 \<le> M" "M < 2 ^ 53"
    by (simp_all only: of_int_le_iff of_int_less_iff)
  with s show ?thesis using that by (simp add: u_def)
qed

subsection \<open>The square root of a square\<close>

lemma sqrt_near:
  fixes a d :: real
  assumes "1 \<le> a" "\<bar>d\<bar> < a - 1 / 4"
  shows "\<bar>sqrt (a\<^sup>2 + d) - a\<bar> < 1 / 2"
proof -
  have "(a - 1 / 2)\<^sup>2 = a\<^sup>2 - a + 1 / 4" "(a + 1 / 2)\<^sup>2 = a\<^sup>2 + a + 1 / 4"
    by (simp_all add: power2_eq_square algebra_simps)
  with assms have lo: "(a - 1 / 2)\<^sup>2 < a\<^sup>2 + d" and hi: "a\<^sup>2 + d < (a + 1 / 2)\<^sup>2"
    by linarith+
  from lo have "a - 1 / 2 < sqrt (a\<^sup>2 + d)" by (rule real_less_rsqrt)
  moreover from hi have "sqrt (a\<^sup>2 + d) < a + 1 / 2"
    using assms(1) by (intro real_less_lsqrt) simp_all
  ultimately show ?thesis by linarith
qed

text \<open>The square root of the rounded square of a number of the grid rounds to the number,
  as long as the square neither overflows nor underflows.\<close>

lemma sqrt_square_exact:
  assumes "is_float64 s" "2 powi (- 511) \<le> s" "s < 2 powi 511"
  shows "f_sqrt (f_mul (Fin s) (Fin s)) = Fin s"
proof -
  have "(0::real) < 2 powi (- 511)" by simp
  with assms(2) have s0: "0 < s" "s \<noteq> 0" "\<bar>s\<bar> = s" by linarith+
  define k where "k = expo s"
  from expo_bounds [OF s0(2)] have kb: "2 powi k \<le> s" "s < 2 powi (k + 1)"
    by (simp_all add: k_def s0)
  have klo: "- 511 \<le> k"
  proof (rule ccontr)
    assume "\<not> - 511 \<le> k"
    then have "k + 1 \<le> - 511" by simp
    then have "(2::real) powi (k + 1) \<le> 2 powi (- 511)"
      by (intro power_int_increasing) simp_all
    with kb(2) assms(2) show False by linarith
  qed
  have khi: "k < 511" unfolding k_def
    using assms(3) s0 by (intro expo_less) simp_all
  from klo have k1022: "- 1022 \<le> k" by simp
  define u :: real where "u = 2 powi (k - 52)"
  have u: "0 < u" by (simp add: u_def)
  from is_float64_normal [OF assms(1) kb k1022] obtain M where
    M: "s = of_int M * u" "2 ^ 52 \<le> M" "M < 2 ^ 53" unfolding u_def by blast
  define a :: real where "a = of_int M"
  have sa: "s = a * u" by (simp add: M a_def)
  from M(2,3) have "2 ^ 52 \<le> M" "M \<le> 2 ^ 53 - 1" by simp_all
  then have "(of_int (2 ^ 52) :: real) \<le> of_int M" "(of_int M :: real) \<le> of_int (2 ^ 53 - 1)"
    by (simp_all only: of_int_le_iff)
  then have ab: "2 ^ 52 \<le> a" "a \<le> 2 ^ 53 - 1" by (simp_all add: a_def)
  define p where "p = s * s"
  have pa: "p = a\<^sup>2 * u\<^sup>2" by (simp add: p_def sa power2_eq_square)
  have uu: "u\<^sup>2 = 2 powi (2 * k - 104)"
    by (simp add: u_def power2_eq_square power_int_add [symmetric])
  have p_lo: "2 powi (2 * k) \<le> p"
  proof -
    have "2 powi k * 2 powi k \<le> s * s"
      using kb(1) s0 by (intro mult_mono) simp_all
    then show ?thesis by (simp add: p_def power_int_add [symmetric])
  qed
  have p_hi: "p < 2 powi (2 * k + 2)"
  proof -
    have "s * s < 2 powi (k + 1) * 2 powi (k + 1)"
      using kb(2) s0 by (intro mult_strict_mono) simp_all
    also have "\<dots> = 2 powi (2 * k + 2)" by (simp add: power_int_add [symmetric])
    finally show ?thesis by (simp add: p_def)
  qed
  have p0: "0 < p" "p \<noteq> 0" "\<bar>p\<bar> = p" using s0 by (simp_all add: p_def)
  have "p < 2 powi 1023"
  proof -
    have "(2::real) powi (2 * k + 2) \<le> 2 powi 1023"
      using khi by (intro power_int_increasing) simp_all
    with p_hi show ?thesis by linarith
  qed
  then have "\<bar>p\<bar> \<le> 2 ^ 1023" using p0 by simp
  from round64_finite [OF this] obtain P where P: "round64 p = Fin P" by blast
  have qp: "quantum p \<le> 2 powi (2 * k - 51)"
  proof -
    from expo_less [OF p0(2), of "2 * k + 2"] p_hi p0 have "expo p - 52 \<le> 2 * k - 51" by simp
    moreover have "- 1074 \<le> 2 * k - 51" using klo by simp
    ultimately have "max (expo p - 52) (- 1074) \<le> 2 * k - 51" by simp
    then show ?thesis
      unfolding quantum_def by (intro power_int_increasing) simp_all
  qed
  have "(2::real) powi (2 * k - 51) = 2 * (2 ^ 52 * u\<^sup>2)"
  proof -
    have "(2::real) powi (2 * k - 51) = 2 powi (53 + (2 * k - 104))" by simp
    also have "\<dots> = 2 powi 53 * 2 powi (2 * k - 104)" by (rule power_int_add) simp
    also have "\<dots> = 2 * (2 ^ 52 * u\<^sup>2)" by (simp add: uu)
    finally show ?thesis .
  qed
  with round64_close [OF P] qp have close: "\<bar>P - p\<bar> \<le> 2 ^ 52 * u\<^sup>2" by linarith
  show ?thesis
  proof (cases "M = 2 ^ 52")
    case True
    then have "a = 2 ^ 52" by (simp add: a_def)
    then have "p = 2 powi 104 * 2 powi (2 * k - 104)" by (simp add: pa uu)
    also have "\<dots> = 2 powi (104 + (2 * k - 104))" by (rule power_int_add [symmetric]) simp
    also have "\<dots> = 2 powi (2 * k)" by simp
    finally have p2: "p = of_int 1 * 2 powi (2 * k)" by simp
    have "- 1074 \<le> 2 * k" using klo by simp
    moreover have "\<bar>p\<bar> < 2 ^ 1024"
    proof -
      have "(2::real) ^ 1024 = 2 * 2 ^ 1023" by simp
      moreover have "(0::real) < 2 ^ 1023" by simp
      ultimately show ?thesis using \<open>\<bar>p\<bar> \<le> 2 ^ 1023\<close> by linarith
    qed
    moreover have "\<bar>1::int\<bar> < 2 ^ 53" by simp
    ultimately have "is_float64 p" using p2 unfolding is_float64_def by blast
    then have "round64 p = Fin p" by (rule round64_exact)
    moreover have "sqrt p = s" using s0 by (simp add: p_def)
    ultimately show ?thesis
      using round64_exact [OF assms(1)] p0 by (simp add: p_def [symmetric])
  next
    case False
    with M(2) have "2 ^ 52 + 1 \<le> M" by simp
    then have "(of_int (2 ^ 52 + 1) :: real) \<le> of_int M" by (simp only: of_int_le_iff)
    then have a1: "2 ^ 52 + 1 \<le> a" by (simp add: a_def)
    define d where "d = P / u\<^sup>2 - a\<^sup>2"
    have u2: "0 < u\<^sup>2" using u by simp
    have Pd: "P = (a\<^sup>2 + d) * u\<^sup>2" using u by (simp add: d_def field_simps)
    have "P - p = d * u\<^sup>2" by (simp add: Pd pa algebra_simps)
    with close have "\<bar>d\<bar> * u\<^sup>2 \<le> 2 ^ 52 * u\<^sup>2"
      using u2 by (simp add: abs_mult)
    with u2 have dd: "\<bar>d\<bar> \<le> 2 ^ 52" by simp
    with a1 have d_small: "\<bar>d\<bar> < a - 1 / 4" by linarith
    have a_ge1: "1 \<le> a" using a1 by (smt (verit) zero_le_power)
    from sqrt_near [OF a_ge1 d_small] have z: "\<bar>sqrt (a\<^sup>2 + d) - a\<bar> < 1 / 2" .
    have "0 \<le> a\<^sup>2 + d"
    proof -
      have "a \<le> a\<^sup>2" using a_ge1 by (simp add: power2_eq_square)
      with d_small show ?thesis by linarith
    qed
    then have P0: "0 \<le> P" using u2 by (simp add: Pd)
    have sqP: "sqrt P = sqrt (a\<^sup>2 + d) * u"
      using u by (simp add: Pd real_sqrt_mult)
    have kk: "(2::real) powi k = 2 ^ 52 * u" "(2::real) powi (k + 1) = 2 ^ 53 * u"
      by (simp_all add: u_def power_int_diff power_int_add)
    have b1: "2 powi k \<le> sqrt P"
    proof -
      from z a1 have "2 ^ 52 \<le> sqrt (a\<^sup>2 + d)" by linarith
      then show ?thesis unfolding kk sqP using u by (intro mult_right_mono) simp_all
    qed
    have b2: "sqrt P < 2 powi (k + 1)"
    proof -
      from z ab(2) have "sqrt (a\<^sup>2 + d) < 2 ^ 53" by linarith
      then show ?thesis unfolding kk sqP using u by (intro mult_strict_right_mono) simp_all
    qed
    have "rint (sqrt P / 2 powi (k - 52)) = M"
    proof (rule rint_nearest)
      have "sqrt P / 2 powi (k - 52) = sqrt (a\<^sup>2 + d)"
        using u by (simp add: sqP u_def [symmetric])
      with z show "\<bar>sqrt P / 2 powi (k - 52) - of_int M\<bar> < 1 / 2"
        by (simp add: a_def)
    qed
    moreover from assms(1) have "\<bar>s\<bar> < 2 ^ 1024" by (auto simp add: is_float64_def)
    ultimately have "round64 (sqrt P) = Fin s"
      using round64_binade [OF b1 b2 k1022] M(1)
      by (simp add: Let_def u_def)
    with P P0 show ?thesis by (simp add: p_def [symmetric])
  qed
qed

section \<open>The converter\<close>

subsection \<open>Decimal text holds no separator\<close>








subsection \<open>One row\<close>




lemma raises_and_then:
  "raises (and_then r f) = (raises r \<or> (\<exists>v. r = Inr v \<and> raises (f v)))"
  by (cases r) (simp_all add: and_then_def)







subsection \<open>The loop and the file\<close>










subsection \<open>The example tables\<close>









section \<open>The analyzer: loading and the run\<close>

subsection \<open>The loop over the files found\<close>

text \<open>
  The loop prints one line per file and changes nothing else but the mapping.
\<close>

lemma load_files_frame:
  "results_dir (load_files fs s) = results_dir s"
  "files (load_files fs s) = files s"
  "dirs (load_files fs s) = dirs s"
  by (induction fs s rule: load_files.induct; simp add: print_line_def split: read_csv.splits)+

lemma load_files_console:
  "console (load_files fs s) = console s @ map (report_line (results_dir s)) fs"
  by (induction fs s rule: load_files.induct)
     (simp_all add: print_line_def report_line_def path_join_def split: read_csv.splits)

text \<open>
  A key that is the stem of no parsed file keeps the entry it had; with distinct stems a
  parsed file ends under its stem and a failed file leaves its stem without an entry.
\<close>

lemma load_files_other_key:
  assumes "\<forall>name df. (name, Parsed df) \<in> set fs \<longrightarrow> stem name \<noteq> k"
  shows "map_of (results (load_files fs s)) k = map_of (results s) k"
  using assms
proof (induction fs s rule: load_files.induct)
  case (1 s)
  show ?case by simp
next
  case (2 name r csv_files s)
  show ?case
  proof (cases r)
    case (Parsed df)
    with "2.prems" have "stem name \<noteq> k" by auto
    with Parsed "2.IH" "2.prems" show ?thesis
      by (simp add: print_line_def update_conv')
  next
    case (Failed e)
    with "2.IH" "2.prems" show ?thesis
      by (simp add: print_line_def)
  qed
qed

lemma load_files_parsed:
  assumes "distinct (map (stem \<circ> fst) fs)" "(name, Parsed df) \<in> set fs"
  shows "map_of (results (load_files fs s)) (stem name) = Some df"
  using assms
proof (induction fs s rule: load_files.induct)
  case (1 s)
  then show ?case by simp
next
  case (2 name' r csv_files s)
  show ?case
  proof (cases "(name, Parsed df) \<in> set csv_files")
    case True
    with "2.IH" "2.prems" show ?thesis by simp
  next
    case False
    with "2.prems" have here: "name' = name" "r = Parsed df" by auto
    from "2.prems"(1) have "\<forall>n t. (n, Parsed t) \<in> set csv_files \<longrightarrow> stem n \<noteq> stem name"
      unfolding here by (auto simp add: image_iff) 
    then show ?thesis
      by (simp add: here load_files_other_key print_line_def update_conv')
  qed
qed

lemma load_files_failed:
  assumes "distinct (map (stem \<circ> fst) fs)" "(name, Failed e) \<in> set fs"
    "map_of (results s) (stem name) = None"
  shows "map_of (results (load_files fs s)) (stem name) = None"
proof -
  have "\<forall>n t. (n, Parsed t) \<in> set fs \<longrightarrow> stem n \<noteq> stem name"
  proof (intro allI impI notI)
    fix n t assume a: "(n, Parsed t) \<in> set fs" and b: "stem n = stem name"
    from assms(1) have "inj_on (stem \<circ> fst) (set fs)"
      by (simp add: distinct_map)
    from inj_onD [OF this, of "(n, Parsed t)" "(name, Failed e)"] a assms(2) b
    show False by simp
  qed
  then show ?thesis
    using assms(3) by (simp add: load_files_other_key)
qed

lemma stems: "stem ''broken.csv'' = ''broken''"
  "stem ''comprehensive_results.csv'' = ''comprehensive_results''"
  "stem ''energy.csv'' = ''energy''"
  by (simp_all add: stem_def)

lemma mixed_dir_glob:
  "glob_csv mixed_dir =
     [(''broken.csv'', Failed ''No columns to parse from file''),
      (''comprehensive_results.csv'', Parsed [mk_row ''GA'' ''Baseline'' 10 2 1 2 1 3])]"
  by (simp add: mixed_dir_def glob_csv_def matches_csv_def)

lemma side_dir_loaded:
  "results (init_analyzer ''quick_results'' side_dir banner) =
     [(''energy'', [mk_row ''GA'' ''Baseline'' 10 2 1 2 1 3])]"
  by (simp add: init_analyzer_def load_data_def side_dir_def glob_csv_def matches_csv_def
      stems print_line_def Let_def)

subsection \<open>Parse failures stay with their file\<close>

text \<open>
  Claim C7, as amended. Let the files found have distinct stems. Then every file found
  gets its own outcome, whatever happens to the others: a file that parses is in the
  mapping under its stem, with its table, and is reported with its record count; a file
  whose parse fails is reported with its path and the error message, and its stem has no
  entry in the mapping. Loading itself never raises: \<open>load_data\<close> returns a state.
  The mapping is keyed by stem alone, so two files with one stem share one entry, the
  entry of the one found last.
\<close>

theorem load_data_per_file:
  assumes "distinct (map (stem \<circ> fst) (glob_csv d))"
  shows "\<forall>(name, r) \<in> set (glob_csv d).
           (case r of
              Parsed df \<Rightarrow>
                map_of (results (init_analyzer dir_name d s)) (stem name) = Some df \<and>
                Text (''  '' @ sym_check @ '' Loaded '' @ stem name @ '': ''
                      @ show_nat (length df) @ '' records'')
                  \<in> set (console (init_analyzer dir_name d s))
            | Failed e \<Rightarrow>
                map_of (results (init_analyzer dir_name d s)) (stem name) = None \<and>
                Text (''  '' @ sym_cross @ '' Error loading '' @ dir_name @ ''/'' @ name
                      @ '': '' @ e)
                  \<in> set (console (init_analyzer dir_name d s)))"
proof (intro ballI, clarify)
  fix name r assume f: "(name, r) \<in> set (glob_csv d)"
  then have ne: "glob_csv d \<noteq> []" by auto
  define s1 where "s1 = print_line (sym_chart @ '' Loading results data...'')
      (s\<lparr>results_dir := dir_name, results := []\<rparr>)"
  have run: "init_analyzer dir_name d s = load_files (glob_csv d) s1"
    using ne by (simp add: init_analyzer_def load_data_def s1_def Let_def)
  have s1: "results s1 = []" "results_dir s1 = dir_name"
    by (simp_all add: s1_def print_line_def)
  have line: "report_line dir_name (name, r) \<in> set (console (init_analyzer dir_name d s))"
    using f by (simp add: run load_files_console s1)
  show "case r of
      Parsed df \<Rightarrow>
        map_of (results (init_analyzer dir_name d s)) (stem name) = Some df \<and>
        Text (''  '' @ sym_check @ '' Loaded '' @ stem name @ '': ''
              @ show_nat (length df) @ '' records'')
          \<in> set (console (init_analyzer dir_name d s))
    | Failed e \<Rightarrow>
        map_of (results (init_analyzer dir_name d s)) (stem name) = None \<and>
        Text (''  '' @ sym_cross @ '' Error loading '' @ dir_name @ ''/'' @ name
              @ '': '' @ e)
          \<in> set (console (init_analyzer dir_name d s))"
  proof (cases r)
    case (Parsed df)
    with f assms line show ?thesis
      by (simp add: run load_files_parsed report_line_def)
  next
    case (Failed e)
    with f assms line show ?thesis
      by (simp add: run load_files_failed s1 report_line_def)
  qed
qed

text \<open>
  A directory with a file that fails to parse, the primary results table, and a file
  that is no table at all.
\<close>

theorem load_data_per_file_witness:
  "map_of (results (init_analyzer ''quick_results'' mixed_dir banner)) ''comprehensive_results''
     = Some [mk_row ''GA'' ''Baseline'' 10 2 1 2 1 3] \<and>
   map_of (results (init_analyzer ''quick_results'' mixed_dir banner)) ''broken'' = None \<and>
   Text (''  '' @ sym_check @ '' Loaded comprehensive_results: 1 records'')
     \<in> set (console (init_analyzer ''quick_results'' mixed_dir banner)) \<and>
   Text (''  '' @ sym_cross
         @ '' Error loading quick_results/broken.csv: No columns to parse from file'')
     \<in> set (console (init_analyzer ''quick_results'' mixed_dir banner))"
proof -
  have "distinct (map (stem \<circ> fst) (glob_csv mixed_dir))"
    by (simp add: mixed_dir_glob stems)
  from load_data_per_file [OF this, of "''quick_results''" banner]
  show ?thesis
    by (simp add: mixed_dir_glob stems show_nat.simps digit_char_def)
qed

text \<open>
  Claim C7 as stated holds of every set of files. Both files of \<open>dot_dir\<close> are found and
  both have the stem \<^verbatim>\<open>.csv\<close>; the second fails to parse, and its key is in the mapping
  all the same, with the table of the first. In \<open>dot_dir_parsed\<close> both files parse, and
  the table of the first is in the mapping under no key.
\<close>

theorem load_data_same_stem_counterexample:
  "glob_csv dot_dir = dot_dir \<and>
   stem ''.csv.csv'' = ''.csv'' \<and> stem ''.csv'' = ''.csv'' \<and>
   map_of (results (init_analyzer ''quick_results'' dot_dir banner)) ''.csv''
     = Some [mk_row ''GA'' ''Baseline'' 10 2 1 2 1 3] \<and>
   glob_csv dot_dir_parsed = dot_dir_parsed \<and>
   results (init_analyzer ''quick_results'' dot_dir_parsed banner) = [(''.csv'', [])]"
  by (simp add: dot_dir_def dot_dir_parsed_def glob_csv_def matches_csv_def stem_def
      init_analyzer_def load_data_def Let_def print_line_def)

subsection \<open>A directory without tables\<close>

text \<open>
  Claim C3. When the input directory holds no \<^verbatim>\<open>.csv\<close> file, the mapping of loaded
  tables is empty and the whole run returns without an exception: the console shows the
  banner, the two loader lines, \<^verbatim>\<open>No data to analyze\<close> and then the closing
  \<^verbatim>\<open>Analysis completed successfully!\<close> lines of \<^verbatim>\<open>main\<close>; no file is written and no
  directory is made.
\<close>

theorem no_csv_files_run:
  assumes "glob_csv d = []"
  shows "results (init_analyzer ''quick_results'' d banner) = [] \<and>
         main d =
           (\<lparr>results_dir = ''quick_results'', results = [],
             console =
               [Text (sym_rocket @ '' IIoT Scheduler Results Analyzer''),
                Text (replicate 40 (CHR ''='')),
                Text (sym_chart @ '' Loading results data...''),
                Text (sym_cross @ '' No CSV files found in quick_results''),
                Text (sym_cross @ '' No data to analyze''),
                Text (newline # sym_party @ '' Analysis completed successfully!''),
                Text (sym_folder
                      @ '' Check the 'analysis_plots' directory for all visualizations'')],
             files = Map.empty, dirs = {}\<rparr>,
            None)"
  using assms
  by (simp add: main_def init_analyzer_def load_data_def create_comprehensive_analysis_def
      next_step_def print_line_def banner_def fresh_def Let_def)

theorem no_csv_files_run_witness:
  "results (init_analyzer ''quick_results'' no_csv_dir banner) = [] \<and>
   snd (main no_csv_dir) = None \<and>
   last (console (fst (main no_csv_dir))) =
     Text (sym_folder @ '' Check the 'analysis_plots' directory for all visualizations'') \<and>
   files (fst (main no_csv_dir)) = Map.empty"
proof -
  have "glob_csv no_csv_dir = []"
    by (simp add: no_csv_dir_def glob_csv_def matches_csv_def)
  from no_csv_files_run [OF this] show ?thesis by simp
qed

subsection \<open>A mapping without the primary table\<close>

text \<open>
  Claim C4, as amended. In every state whose mapping has no \<^verbatim>\<open>comprehensive_results\<close>
  table, each of the six reports prints its progress line, the line it prints whenever
  it is called, and returns at once: no line says that the report was skipped, no
  exception, no file written, nothing else changed. So \<open>create_comprehensive_analysis\<close>
  runs all six one after the other (or none, when the mapping is empty), writes no
  artifact and raises nothing, and \<^verbatim>\<open>main\<close> ends with its closing lines.
\<close>

theorem absent_table_reports_noop:
  assumes "map_of (results s) ''comprehensive_results'' = None"
  shows
    "plot_algorithm_comparison p s =
       (print_line (''  '' @ sym_rising @ '' Creating algorithm comparison plots...'') s, None) \<and>
     plot_scenario_analysis p s =
       (print_line (''  '' @ sym_globe @ '' Creating scenario analysis plots...'') s, None) \<and>
     plot_scalability_analysis p s =
       (print_line (''  '' @ sym_chart @ '' Creating scalability analysis plots...'') s, None) \<and>
     plot_correlation_analysis p s =
       (print_line (''  '' @ sym_link @ '' Creating correlation analysis plots...'') s, None) \<and>
     plot_performance_heatmaps p s =
       (print_line (''  '' @ sym_map @ ''  Creating performance heatmaps...'') s, None) \<and>
     generate_statistical_summary p s =
       (print_line (''  '' @ sym_clipboard @ '' Generating statistical summary...'') s, None) \<and>
     create_comprehensive_analysis s =
       (if results s = [] then print_line (sym_cross @ '' No data to analyze'') s
        else s\<lparr>dirs := insert ''analysis_plots'' (dirs s),
               console := console s @
                 [Text (newline # sym_palette @ '' Creating comprehensive analysis...''),
                  Text (''  '' @ sym_rising @ '' Creating algorithm comparison plots...''),
                  Text (''  '' @ sym_globe @ '' Creating scenario analysis plots...''),
                  Text (''  '' @ sym_chart @ '' Creating scalability analysis plots...''),
                  Text (''  '' @ sym_link @ '' Creating correlation analysis plots...''),
                  Text (''  '' @ sym_map @ ''  Creating performance heatmaps...''),
                  Text (''  '' @ sym_clipboard @ '' Generating statistical summary...''),
                  Text (newline # sym_check
                        @ '' Analysis completed! Plots saved to: analysis_plots'')]\<rparr>,
        None) \<and>
     (s = init_analyzer ''quick_results'' d banner \<longrightarrow>
        snd (main d) = None \<and> files (fst (main d)) = Map.empty \<and>
        last (console (fst (main d))) =
          Text (sym_folder @ '' Check the 'analysis_plots' directory for all visualizations''))"
proof -
  have absent: "map_of (results (print_line t s')) ''comprehensive_results'' = None"
    if "map_of (results s') ''comprehensive_results'' = None" for t s'
    using that by (simp add: print_line_def)
  have r1: "plot_algorithm_comparison p s' =
       (print_line (''  '' @ sym_rising @ '' Creating algorithm comparison plots...'') s', None)"
    and r2: "plot_scenario_analysis p s' =
       (print_line (''  '' @ sym_globe @ '' Creating scenario analysis plots...'') s', None)"
    and r3: "plot_scalability_analysis p s' =
       (print_line (''  '' @ sym_chart @ '' Creating scalability analysis plots...'') s', None)"
    and r4: "plot_correlation_analysis p s' =
       (print_line (''  '' @ sym_link @ '' Creating correlation analysis plots...'') s', None)"
    and r5: "plot_performance_heatmaps p s' =
       (print_line (''  '' @ sym_map @ ''  Creating performance heatmaps...'') s', None)"
    and r6: "generate_statistical_summary p s' =
       (print_line (''  '' @ sym_clipboard @ '' Generating statistical summary...'') s', None)"
    if "map_of (results s') ''comprehensive_results'' = None" for s' p
    using absent [OF that]
    by (simp_all add: plot_algorithm_comparison_def plot_scenario_analysis_def
        plot_scalability_analysis_def plot_correlation_analysis_def
        plot_performance_heatmaps_def generate_statistical_summary_def Let_def)
  have run: "create_comprehensive_analysis s =
       (if results s = [] then print_line (sym_cross @ '' No data to analyze'') s
        else s\<lparr>dirs := insert ''analysis_plots'' (dirs s),
               console := console s @
                 [Text (newline # sym_palette @ '' Creating comprehensive analysis...''),
                  Text (''  '' @ sym_rising @ '' Creating algorithm comparison plots...''),
                  Text (''  '' @ sym_globe @ '' Creating scenario analysis plots...''),
                  Text (''  '' @ sym_chart @ '' Creating scalability analysis plots...''),
                  Text (''  '' @ sym_link @ '' Creating correlation analysis plots...''),
                  Text (''  '' @ sym_map @ ''  Creating performance heatmaps...''),
                  Text (''  '' @ sym_clipboard @ '' Generating statistical summary...''),
                  Text (newline # sym_check
                        @ '' Analysis completed! Plots saved to: analysis_plots'')]\<rparr>,
        None)"
  proof (cases "results s = []")
    case True
    then show ?thesis by (simp add: create_comprehensive_analysis_def)
  next
    case False
    have a: "map_of (results (mkdir x s')) ''comprehensive_results'' = None"
      if "map_of (results s') ''comprehensive_results'' = None" for x s'
      using that by (simp add: mkdir_def)
    show ?thesis
      using False assms
      by (simp add: create_comprehensive_analysis_def Let_def next_step_def
          r1 r2 r3 r4 r5 r6 absent a)
        (simp add: print_line_def mkdir_def)
  qed
  have files_main: "s = init_analyzer ''quick_results'' d banner \<Longrightarrow>
        snd (main d) = None \<and> files (fst (main d)) = Map.empty \<and>
        last (console (fst (main d))) =
          Text (sym_folder @ '' Check the 'analysis_plots' directory for all visualizations'')"
  proof -
    assume s: "s = init_analyzer ''quick_results'' d banner"
    have "files s = Map.empty"
      by (simp add: s init_analyzer_def load_data_def Let_def load_files_frame print_line_def
          banner_def fresh_def)
    then show ?thesis
      using run by (simp add: main_def Let_def s [symmetric] next_step_def print_line_def)
  qed
  from r1 [OF assms] r2 [OF assms] r3 [OF assms] r4 [OF assms] r5 [OF assms] r6 [OF assms]
    run files_main
  show ?thesis by blast
qed

text \<open>
  A directory whose only table is not the primary one: the six reports run and write
  nothing.
\<close>

theorem absent_table_reports_noop_witness:
  "snd (main side_dir) = None \<and> files (fst (main side_dir)) = Map.empty \<and>
   snd (create_comprehensive_analysis (init_analyzer ''quick_results'' side_dir banner)) = None \<and>
   dirs (fst (create_comprehensive_analysis (init_analyzer ''quick_results'' side_dir banner)))
     = {''analysis_plots''} \<and>
   snd (plot_scalability_analysis ''analysis_plots''
          (init_analyzer ''quick_results'' side_dir banner)) = None"
proof -
  have absent: "map_of (results (init_analyzer ''quick_results'' side_dir banner))
      ''comprehensive_results'' = None"
    by (simp add: side_dir_loaded)
  have d: "dirs (init_analyzer ''quick_results'' side_dir banner) = {}"
    by (simp add: init_analyzer_def load_data_def Let_def load_files_frame print_line_def
        banner_def fresh_def)
  from absent_table_reports_noop [OF absent, of "''analysis_plots''" side_dir]
  show ?thesis
    by (simp add: side_dir_loaded d)
qed

text \<open>
  Claim C4 as stated has every skipped report emit a diagnostic. A skipped report leaves
  one line on the console, its progress line; a report that prints nothing further when
  it runs leaves the same console whether it is skipped or runs.
\<close>

theorem skipped_report_console_counterexample:
  "map_of (results other_table_state) ''comprehensive_results'' = None \<and>
   map_of (results (with_table demo_table)) ''comprehensive_results'' = Some demo_table \<and>
   console (fst (plot_algorithm_comparison ''analysis_plots'' other_table_state)) =
     [Text (''  '' @ sym_rising @ '' Creating algorithm comparison plots...'')] \<and>
   console (fst (plot_algorithm_comparison ''analysis_plots'' (with_table demo_table))) =
     [Text (''  '' @ sym_rising @ '' Creating algorithm comparison plots...'')] \<and>
   console (fst (plot_scenario_analysis ''analysis_plots'' other_table_state)) =
     [Text (''  '' @ sym_globe @ '' Creating scenario analysis plots...'')] \<and>
   console (fst (plot_scenario_analysis ''analysis_plots'' (with_table demo_table))) =
     [Text (''  '' @ sym_globe @ '' Creating scenario analysis plots...'')] \<and>
   console (fst (plot_scalability_analysis ''analysis_plots'' other_table_state)) =
     [Text (''  '' @ sym_chart @ '' Creating scalability analysis plots...'')] \<and>
   console (fst (plot_correlation_analysis ''analysis_plots'' other_table_state)) =
     [Text (''  '' @ sym_link @ '' Creating correlation analysis plots...'')] \<and>
   console (fst (plot_performance_heatmaps ''analysis_plots'' other_table_state)) =
     [Text (''  '' @ sym_map @ ''  Creating performance heatmaps...'')] \<and>
   console (fst (plot_performance_heatmaps ''analysis_plots'' (with_table demo_table))) =
     [Text (''  '' @ sym_map @ ''  Creating performance heatmaps...'')] \<and>
   console (fst (generate_statistical_summary ''analysis_plots'' other_table_state)) =
     [Text (''  '' @ sym_clipboard @ '' Generating statistical summary...'')]"
  by (simp add: other_table_state_def with_table_def fresh_def plot_algorithm_comparison_def
      plot_scenario_analysis_def plot_scalability_analysis_def plot_correlation_analysis_def
      plot_performance_heatmaps_def generate_statistical_summary_def
      Let_def print_line_def savefig_def)
section \<open>The analyzer: the reports\<close>

subsection \<open>The scalability report\<close>

text \<open>
  Claim C6. With the primary table present: when it has no row whose Scenario is
  \<^verbatim>\<open>Scalability\<close>, the scalability report prints its progress line and the warning
  \<^verbatim>\<open>No scalability data found\<close>, raises nothing and writes no file; when it has such
  rows, the one artifact it writes is the figure drawn from exactly those rows.
\<close>

theorem scalability_report_subset:
  assumes "map_of (results s) ''comprehensive_results'' = Some df"
  shows
    "(filter (\<lambda>r. Scenario r = ''Scalability'') df = [] \<longrightarrow>
        plot_scalability_analysis p s =
          (print_line (''    '' @ sym_warning @ ''  No scalability data found'')
             (print_line (''  '' @ sym_chart @ '' Creating scalability analysis plots...'') s),
           None) \<and>
        files (fst (plot_scalability_analysis p s)) = files s) \<and>
     (filter (\<lambda>r. Scenario r = ''Scalability'') df \<noteq> [] \<longrightarrow>
        plot_scalability_analysis p s =
          (savefig (path_join p ''scalability_analysis.png'')
             (scalability_figure (filter (\<lambda>r. Scenario r = ''Scalability'') df))
             (print_line (''  '' @ sym_chart @ '' Creating scalability analysis plots...'') s),
           None))"
proof -
  have "map_of (results (print_line t s)) ''comprehensive_results'' = Some df" for t
    using assms by (simp add: print_line_def)
  then show ?thesis
    by (simp add: plot_scalability_analysis_def Let_def) (simp add: print_line_def)
qed

lemma demo_scalability:
  "filter (\<lambda>r. Scenario r = ''Scalability'') demo_table =
     [mk_row ''GA'' ''Scalability'' 10 2 200 50 (9 / 10) 3,
      mk_row ''GA'' ''Scalability'' 20 4 400 70 (7 / 10) 5]"
  "filter (\<lambda>r. Scenario r = ''Scalability'') [mk_row ''PSO'' ''Baseline'' 20 2 100 40 (1 / 2) 4]
     = []"
  by (simp_all add: demo_table_def mk_row_def)

text \<open>
  A table with two Scalability rows among three, and a table with none.
\<close>

theorem scalability_report_subset_witness:
  "files (fst (plot_scalability_analysis ''analysis_plots'' (with_table demo_table)))
     ''analysis_plots/scalability_analysis.png'' =
     Some (Png (scalability_figure
       [mk_row ''GA'' ''Scalability'' 10 2 200 50 (9 / 10) 3,
        mk_row ''GA'' ''Scalability'' 20 4 400 70 (7 / 10) 5])) \<and>
   snd (plot_scalability_analysis ''analysis_plots''
          (with_table [mk_row ''PSO'' ''Baseline'' 20 2 100 40 (1 / 2) 4])) = None \<and>
   files (fst (plot_scalability_analysis ''analysis_plots''
          (with_table [mk_row ''PSO'' ''Baseline'' 20 2 100 40 (1 / 2) 4]))) = Map.empty \<and>
   last (console (fst (plot_scalability_analysis ''analysis_plots''
          (with_table [mk_row ''PSO'' ''Baseline'' 20 2 100 40 (1 / 2) 4])))) =
     Text (''    '' @ sym_warning @ ''  No scalability data found'')"
proof -
  have t1: "map_of (results (with_table demo_table)) ''comprehensive_results'' = Some demo_table"
    by (simp add: with_table_def)
  have t2: "map_of (results (with_table [mk_row ''PSO'' ''Baseline'' 20 2 100 40 (1 / 2) 4]))
      ''comprehensive_results'' = Some [mk_row ''PSO'' ''Baseline'' 20 2 100 40 (1 / 2) 4]"
    by (simp add: with_table_def)
  note a = scalability_report_subset [OF t1, of "''analysis_plots''",
      unfolded demo_scalability(1)]
  note b = scalability_report_subset [OF t2, of "''analysis_plots''",
      unfolded demo_scalability(2)]
  from a b show ?thesis
    by (simp add: savefig_def path_join_def print_line_def with_table_def fresh_def)
qed

subsection \<open>Groups and their means\<close>

lemma group_keys_set: "set (group_keys df) = Algorithm ` set df"
  by (simp add: group_keys_def)

lemma group_keys_sorted: "sorted (group_keys df)" "distinct (group_keys df)"
  by (simp_all add: group_keys_def)

lemma get_group_nonempty: "a \<in> set (group_keys df) \<Longrightarrow> get_group a df \<noteq> []"
  by (auto simp add: group_keys_set get_group_def filter_empty_conv)

lemma agg_mean_group:
  "a \<in> set (group_keys df) \<Longrightarrow> agg_mean (map col (get_group a df)) = Some (group_mean col df a)"
  by (simp add: agg_mean_def group_mean_def get_group_nonempty)

lemma groupby_mean_group_mean:
  "groupby_mean col df = map (\<lambda>a. (a, Some (group_mean col df a))) (group_keys df)"
  by (simp add: groupby_mean_def agg_mean_group)

lemma dropna_Some: "dropna (map (\<lambda>a. (a, Some (f a))) ks) = map (\<lambda>a. (a, f a)) ks"
  by (induction ks) (simp_all add: dropna_def)

lemma demo_keys: "group_keys demo_table = [StrKey ''GA'', StrKey ''PSO'']"
  by (simp add: group_keys_def demo_table_def mk_row_def)

lemma demo_groups:
  "get_group (StrKey ''GA'') demo_table =
     [mk_row ''GA'' ''Scalability'' 10 2 200 50 (9 / 10) 3,
      mk_row ''GA'' ''Scalability'' 20 4 400 70 (7 / 10) 5]"
  "get_group (StrKey ''PSO'') demo_table = [mk_row ''PSO'' ''Baseline'' 20 2 100 40 (1 / 2) 4]"
  by (simp_all add: get_group_def demo_table_def mk_row_def)

lemma demo_means:
  "group_mean TotalCost demo_table (StrKey ''GA'') = 300" "group_mean TotalCost demo_table (StrKey ''PSO'') = 100"
  "group_mean Makespan demo_table (StrKey ''GA'') = 60" "group_mean Makespan demo_table (StrKey ''PSO'') = 40"
  "group_mean DeadlineHitRate demo_table (StrKey ''GA'') = 4 / 5"
  "group_mean DeadlineHitRate demo_table (StrKey ''PSO'') = 1 / 2"
  "group_mean ExecutionTime demo_table (StrKey ''GA'') = 4"
  "group_mean ExecutionTime demo_table (StrKey ''PSO'') = 4"
  by (simp_all add: group_mean_def demo_groups) (simp_all add: mk_row_def)

subsection \<open>The bar chart of average performance\<close>

text \<open>
  Claim C5 says the bars of the grouped bar chart are normalized group means. The code
  labels the chart so (\<^verbatim>\<open>Normalized Performance\<close>, \<^verbatim>\<open>(Normalized)\<close>) but hands the raw
  group means to \<^verbatim>\<open>ax.bar\<close>: with the primary table present, the artifact
  \<^verbatim>\<open>average_performance.png\<close> holds three bar series whose heights are exactly the
  arithmetic means of TotalCost, Makespan and DeadlineHitRate per Algorithm, with no
  step in between.
\<close>

theorem average_performance_bars_are_raw_means:
  assumes "map_of (results s) ''comprehensive_results'' = Some df"
  shows "files (fst (plot_algorithm_comparison p s)) (path_join p ''average_performance.png'') =
     Some (Png
       [Bar (map (\<lambda>v. v - 0.25) (map real [0 ..< length (group_keys df)]))
          (map (\<lambda>a. Some (group_mean TotalCost df a)) (group_keys df)) 0.25 ''Total Cost'',
        Bar (map real [0 ..< length (group_keys df)])
          (map (\<lambda>a. Some (group_mean Makespan df a)) (group_keys df)) 0.25 ''Makespan'',
        Bar (map (\<lambda>v. v + 0.25) (map real [0 ..< length (group_keys df)]))
          (map (\<lambda>a. Some (group_mean DeadlineHitRate df a)) (group_keys df)) 0.25
          ''Deadline Hit Rate'',
        SetXLabel (0, 0) ''Algorithm'',
        SetYLabel (0, 0) ''Normalized Performance'',
        SetTitle (0, 0) ''Average Algorithm Performance (Normalized)'',
        SetXTicks (map real [0 ..< length (group_keys df)]) (group_keys df)])"
proof -
  have "map_of (results (print_line t s)) ''comprehensive_results'' = Some df" for t
    using assms by (simp add: print_line_def)
  then show ?thesis
    by (simp add: plot_algorithm_comparison_def Let_def savefig_def
        average_performance_figure_def groupby_mean_group_mean comp_def)
qed

text \<open>
  Two algorithms with mean costs 300 and 100: the bars have these heights, far outside
  any normalized range, under the axis label \<^verbatim>\<open>Normalized Performance\<close>.
\<close>

theorem average_performance_bars_are_raw_means_witness:
  "files (fst (plot_algorithm_comparison ''analysis_plots'' (with_table demo_table)))
     ''analysis_plots/average_performance.png'' =
     Some (Png
       [Bar [- 0.25, 0.75] [Some 300, Some 100] 0.25 ''Total Cost'',
        Bar [0, 1] [Some 60, Some 40] 0.25 ''Makespan'',
        Bar [0.25, 1.25] [Some 0.8, Some 0.5] 0.25 ''Deadline Hit Rate'',
        SetXLabel (0, 0) ''Algorithm'',
        SetYLabel (0, 0) ''Normalized Performance'',
        SetTitle (0, 0) ''Average Algorithm Performance (Normalized)'',
        SetXTicks [0, 1] [StrKey ''GA'', StrKey ''PSO'']])"
proof -
  have t: "map_of (results (with_table demo_table)) ''comprehensive_results'' = Some demo_table"
    by (simp add: with_table_def)
  from average_performance_bars_are_raw_means [OF t, of "''analysis_plots''"]
  show ?thesis
    by (simp add: demo_keys demo_means path_join_def upt_rec)
qed

subsection \<open>The leaderboard\<close>

text \<open>
  \<open>first_best (<)\<close> over a Series with sorted labels returns the label of an entry with
  the least value, the head when the head has it, and the least label among the entries
  that have it.
\<close>

lemma first_best_less:
  assumes "sorted (map fst ((k, v) # rest))"
  shows "\<exists>w. (first_best (<) (k, v) rest, w) \<in> set ((k, v) # rest) \<and> w \<le> v \<and>
             (w = v \<longrightarrow> first_best (<) (k, v) rest = k) \<and>
             (\<forall>(k', v') \<in> set ((k, v) # rest).
                w \<le> v' \<and> (v' = w \<longrightarrow> first_best (<) (k, v) rest \<le> k'))"
  using assms
proof (induction rest arbitrary: k v)
  case Nil
  show ?case by simp
next
  case (Cons e rest)
  obtain k1 v1 where e: "e = (k1, v1)" by (cases e)
  show ?case
  proof (cases "v1 < v")
    case True
    from Cons.prems have "sorted (map fst ((k1, v1) # rest))" by (simp add: e)
    from Cons.IH [OF this] obtain w where
      w: "(first_best (<) (k1, v1) rest, w) \<in> set ((k1, v1) # rest)" "w \<le> v1"
        "\<forall>(k', v') \<in> set ((k1, v1) # rest).
            w \<le> v' \<and> (v' = w \<longrightarrow> first_best (<) (k1, v1) rest \<le> k')"
      by blast
    with True show ?thesis
      unfolding e by (intro exI [of _ w]) auto
  next
    case False
    from Cons.prems have "sorted (map fst ((k, v) # rest))" and kk1: "k \<le> k1"
      by (simp_all add: e)
    from Cons.IH [OF this(1)] obtain w where
      w: "(first_best (<) (k, v) rest, w) \<in> set ((k, v) # rest)" "w \<le> v"
        "w = v \<longrightarrow> first_best (<) (k, v) rest = k"
        "\<forall>(k', v') \<in> set ((k, v) # rest).
            w \<le> v' \<and> (v' = w \<longrightarrow> first_best (<) (k, v) rest \<le> k')"
      by blast
    with False kk1 show ?thesis
      unfolding e by (intro exI [of _ w]) auto
  qed
qed

lemma first_best_greater:
  "first_best (>) (k, v) rest = first_best (<) (k, - v) (map (\<lambda>(k', v'). (k', - v')) rest)"
  by (induction rest arbitrary: k v) auto

lemma idxmin_lowest:
  assumes "df \<noteq> []"
  shows "\<exists>a. idxmin (groupby_mean col df) = Inr a \<and> lowest col df a"
proof -
  from assms obtain k ks where ks: "group_keys df = k # ks"
    by (cases "group_keys df") (use group_keys_set [of df] in auto)
  let ?ser = "map (\<lambda>a. (a, group_mean col df a)) (k # ks)"
  let ?a = "first_best (<) (k, group_mean col df k) (map (\<lambda>a. (a, group_mean col df a)) ks)"
  have "dropna (groupby_mean col df) = map (\<lambda>a. (a, group_mean col df a)) (group_keys df)"
    by (simp only: groupby_mean_group_mean dropna_Some)
  then have run: "idxmin (groupby_mean col df) = Inr ?a"
    by (simp add: idxmin_def ks)
  have "sorted (map fst ?ser)"
    using group_keys_sorted(1) [of df] by (simp add: ks comp_def)
  then have "sorted (map fst ((k, group_mean col df k) # map (\<lambda>a. (a, group_mean col df a)) ks))"
    by simp
  from first_best_less [OF this] obtain w where
    w: "(?a, w) \<in> set ?ser"
      "\<forall>(k', v') \<in> set ?ser. w \<le> v' \<and> (v' = w \<longrightarrow> ?a \<le> k')"
    by auto
  from w(1) have a: "?a \<in> set (k # ks)" and wa: "w = group_mean col df ?a"
    by auto
  have "lowest col df ?a"
    unfolding lowest_def
  proof (intro conjI ballI)
    show "?a \<in> Algorithm ` set df"
      using a group_keys_set [of df] unfolding ks by blast
  next
    fix b assume "b \<in> Algorithm ` set df"
    then have "(b, group_mean col df b) \<in> set ?ser"
      using group_keys_set [of df] by (auto simp add: ks)
    with w(2) have "w \<le> group_mean col df b \<and> (group_mean col df b = w \<longrightarrow> ?a \<le> b)"
      by blast
    then show "group_mean col df ?a \<le> group_mean col df b"
      and "group_mean col df b = group_mean col df ?a \<longrightarrow> ?a \<le> b"
      using wa by simp_all
  qed
  with run show ?thesis by blast
qed

lemma idxmax_highest:
  assumes "df \<noteq> []"
  shows "\<exists>a. idxmax (groupby_mean col df) = Inr a \<and> highest col df a"
proof -
  from assms obtain k ks where ks: "group_keys df = k # ks"
    by (cases "group_keys df") (use group_keys_set [of df] in auto)
  let ?neg = "\<lambda>a. (a, - group_mean col df a)"
  let ?a = "first_best (<) (?neg k) (map ?neg ks)"
  have "dropna (groupby_mean col df) = map (\<lambda>a. (a, group_mean col df a)) (group_keys df)"
    by (simp only: groupby_mean_group_mean dropna_Some)
  then have run: "idxmax (groupby_mean col df) = Inr ?a"
    by (simp add: idxmax_def ks first_best_greater comp_def)
  have "sorted (map fst (map ?neg (k # ks)))"
    using group_keys_sorted(1) [of df] by (simp add: ks comp_def)
  then have "sorted (map fst (?neg k # map ?neg ks))"
    by simp
  from first_best_less [OF this] obtain w where
    w: "(?a, w) \<in> set (map ?neg (k # ks))"
      "\<forall>(k', v') \<in> set (map ?neg (k # ks)). w \<le> v' \<and> (v' = w \<longrightarrow> ?a \<le> k')"
    by auto
  from w(1) have a: "?a \<in> set (k # ks)" and wa: "w = - group_mean col df ?a"
    by auto
  have "highest col df ?a"
    unfolding highest_def
  proof (intro conjI ballI)
    show "?a \<in> Algorithm ` set df"
      using a group_keys_set [of df] unfolding ks by blast
  next
    fix b assume "b \<in> Algorithm ` set df"
    then have "?neg b \<in> set (map ?neg (k # ks))"
      using group_keys_set [of df] by (auto simp add: ks)
    with w(2) have "w \<le> - group_mean col df b \<and> (- group_mean col df b = w \<longrightarrow> ?a \<le> b)"
      by blast
    then show "group_mean col df b \<le> group_mean col df ?a"
      and "group_mean col df b = group_mean col df ?a \<longrightarrow> ?a \<le> b"
      using wa by simp_all
  qed
  with run show ?thesis by blast
qed

lemma tie_keys: "group_keys tie_table = [StrKey ''A'', StrKey ''B'']"
  by (simp add: group_keys_def tie_table_def mk_row_def)

lemma tie_groups:
  "get_group (StrKey ''A'') tie_table = [mk_row ''A'' ''Baseline'' 10 2 1 4 (1 / 4) 5]"
  "get_group (StrKey ''B'') tie_table = [mk_row ''B'' ''Baseline'' 10 2 1 2 (1 / 2) 3]"
  by (simp_all add: get_group_def tie_table_def mk_row_def)

lemma tie_means:
  "group_mean TotalCost tie_table (StrKey ''A'') = 1" "group_mean TotalCost tie_table (StrKey ''B'') = 1"
  "group_mean Makespan tie_table (StrKey ''A'') = 4" "group_mean Makespan tie_table (StrKey ''B'') = 2"
  "group_mean DeadlineHitRate tie_table (StrKey ''A'') = 1 / 4"
  "group_mean DeadlineHitRate tie_table (StrKey ''B'') = 1 / 2"
  "group_mean ExecutionTime tie_table (StrKey ''A'') = 5" "group_mean ExecutionTime tie_table (StrKey ''B'') = 3"
  by (simp_all add: group_mean_def tie_groups) (simp_all add: mk_row_def)

lemma tie_leaderboard: "leaderboard tie_table = Inr (StrKey ''A'', StrKey ''B'', StrKey ''B'', StrKey ''B'')"
  by (simp add: leaderboard_def and_then_def idxmin_def idxmax_def groupby_mean_group_mean
      tie_keys dropna_def tie_means)

text \<open>
  Claim C2, as amended. For every non-empty primary table the four selections of the
  leaderboard raise nothing, and each returns an Algorithm of the table whose group mean
  is \<open>\<le>\<close> (lowest cost, makespan, execution time) or \<open>\<ge>\<close> (highest deadline hit rate)
  the group mean of every Algorithm; among Algorithms with the same extreme mean it is
  the least one in the order of the column's type, because \<^verbatim>\<open>groupby\<close> sorts the group
  keys: by numeric value when the column holds whole numbers, character by character
  when it holds text. The order of the rows plays no part.
\<close>

theorem leaderboard_selects_extremes:
  assumes "df \<noteq> []"
  shows "\<exists>best_cost best_makespan best_deadline best_time.
           leaderboard df = Inr (best_cost, best_makespan, best_deadline, best_time) \<and>
           lowest TotalCost df best_cost \<and> lowest Makespan df best_makespan \<and>
           highest DeadlineHitRate df best_deadline \<and> lowest ExecutionTime df best_time"
proof -
  from idxmin_lowest [OF assms, of TotalCost] obtain c where
    c: "idxmin (groupby_mean TotalCost df) = Inr c" "lowest TotalCost df c" by blast
  from idxmin_lowest [OF assms, of Makespan] obtain m where
    m: "idxmin (groupby_mean Makespan df) = Inr m" "lowest Makespan df m" by blast
  from idxmax_highest [OF assms, of DeadlineHitRate] obtain d where
    d: "idxmax (groupby_mean DeadlineHitRate df) = Inr d" "highest DeadlineHitRate df d" by blast
  from idxmin_lowest [OF assms, of ExecutionTime] obtain t where
    t: "idxmin (groupby_mean ExecutionTime df) = Inr t" "lowest ExecutionTime df t" by blast
  have "leaderboard df = Inr (c, m, d, t)"
    by (simp add: leaderboard_def and_then_def c m d t)
  with c m d t show ?thesis by blast
qed

lemma numbered_keys: "group_keys numbered_table = [IntKey 9, IntKey 10]"
  by (simp add: group_keys_def numbered_table_def mk_row_def)

lemma numbered_means:
  "group_mean TotalCost numbered_table (IntKey 9) = 1"
  "group_mean TotalCost numbered_table (IntKey 10) = 1"
  "group_mean Makespan numbered_table (IntKey 9) = 4"
  "group_mean Makespan numbered_table (IntKey 10) = 2"
  "group_mean DeadlineHitRate numbered_table (IntKey 9) = 1 / 4"
  "group_mean DeadlineHitRate numbered_table (IntKey 10) = 1 / 2"
  "group_mean ExecutionTime numbered_table (IntKey 9) = 5"
  "group_mean ExecutionTime numbered_table (IntKey 10) = 3"
  by (simp_all add: group_mean_def get_group_def numbered_table_def mk_row_def)

lemma numbered_leaderboard:
  "leaderboard numbered_table = Inr (IntKey 9, IntKey 10, IntKey 10, IntKey 10)"
  by (simp add: leaderboard_def and_then_def idxmin_def idxmax_def groupby_mean_group_mean
      numbered_keys dropna_def numbered_means)

text \<open>As text the key \<^verbatim>\<open>10\<close> sorts before \<^verbatim>\<open>9\<close>; as numbers 9 comes first.\<close>

lemma key_orders: "StrKey ''10'' < StrKey ''9''" "IntKey 9 < IntKey 10"
  by (simp_all add: less_label_def)

text \<open>
  Claim C2 as stated has ties broken by the first Algorithm in row order. In
  \<open>tie_table\<close> the first row is of Algorithm \<^verbatim>\<open>B\<close>, \<^verbatim>\<open>A\<close> and \<^verbatim>\<open>B\<close> have the same
  mean TotalCost, and the selection returns \<^verbatim>\<open>A\<close>.
\<close>

theorem leaderboard_tie_counterexample:
  "unique (map Algorithm tie_table) = [StrKey ''B'', StrKey ''A''] \<and>
   group_mean TotalCost tie_table (StrKey ''B'') = group_mean TotalCost tie_table (StrKey ''A'') \<and>
   idxmin (groupby_mean TotalCost tie_table) = Inr (StrKey ''A'')"
  by (simp add: tie_means idxmin_def groupby_mean_group_mean tie_keys dropna_def)
     (simp add: unique_def tie_table_def mk_row_def)

text \<open>
  Two tables with a tie on the mean TotalCost. In \<open>tie_table\<close> the keys are text and the
  selection returns \<^verbatim>\<open>A\<close>; in \<open>numbered_table\<close> the keys are the numbers 10 and 9, in
  this row order, and the selection returns 9.
\<close>

theorem leaderboard_selects_extremes_witness:
  "leaderboard tie_table = Inr (StrKey ''A'', StrKey ''B'', StrKey ''B'', StrKey ''B'') \<and>
   lowest TotalCost tie_table (StrKey ''A'') \<and> lowest Makespan tie_table (StrKey ''B'') \<and>
   highest DeadlineHitRate tie_table (StrKey ''B'') \<and>
   lowest ExecutionTime tie_table (StrKey ''B'') \<and>
   leaderboard numbered_table = Inr (IntKey 9, IntKey 10, IntKey 10, IntKey 10) \<and>
   lowest TotalCost numbered_table (IntKey 9)"
proof -
  have "tie_table \<noteq> []" by (simp add: tie_table_def)
  from leaderboard_selects_extremes [OF this] have a:
    "lowest TotalCost tie_table (StrKey ''A'') \<and> lowest Makespan tie_table (StrKey ''B'') \<and>
     highest DeadlineHitRate tie_table (StrKey ''B'') \<and>
     lowest ExecutionTime tie_table (StrKey ''B'')"
    by (simp add: tie_leaderboard)
  have "numbered_table \<noteq> []" by (simp add: numbered_table_def)
  from leaderboard_selects_extremes [OF this] have "lowest TotalCost numbered_table (IntKey 9)"
    by (simp add: numbered_leaderboard)
  with a show ?thesis
    by (simp add: tie_leaderboard numbered_leaderboard)
qed
subsection \<open>The correlation matrix\<close>

lemma corr_nth:
  assumes "i < length cols" "j < length cols"
  shows "corr cols df ! i ! j =
    nancorr_pair (cells (cols ! max i j) df) (cells (cols ! min i j) df)"
  using assms by (simp add: corr_def nancorr_def)

lemma corr_symmetric:
  assumes "i < length cols" "j < length cols"
  shows "corr cols df ! i ! j = corr cols df ! j ! i"
  using assms by (simp add: corr_nth max.commute min.commute)

lemma f_add_grid: "f_add a b = Fin s \<Longrightarrow> is_float64 s"
  by (cases a; cases b) (simp_all add: round64_grid)

lemma f_div_NaN [simp]: "f_div x NaN = NaN"
  by (cases x) simp_all

lemma f_sub_self: "is_float64 a \<Longrightarrow> f_sub (Fin a) (Fin a) = Fin 0"
  by (simp add: f_sub_def round64_0)

lemma f_sub_0: "is_float64 a \<Longrightarrow> f_sub (Fin a) (Fin 0) = Fin a"
  by (simp add: f_sub_def round64_exact)

lemma f_add_0: "is_float64 a \<Longrightarrow> f_add (Fin a) (Fin 0) = Fin a"
  "is_float64 a \<Longrightarrow> f_add (Fin 0) (Fin a) = Fin a"
  by (simp_all add: round64_exact)

lemma f_mul_0: "f_mul (Fin a) (Fin 0) = Fin 0" "f_mul (Fin 0) (Fin a) = Fin 0"
  by (simp_all add: round64_0)

lemma reciprocal_finite: "\<exists>q. f_div (Fin 1) (Fin (real (Suc n))) = Fin q"
proof -
  have "\<bar>1 / real (Suc n)\<bar> \<le> 1" by simp
  also have "(1::real) \<le> 2 ^ 1023" by simp
  finally have "\<exists>q. round64 (1 / real (Suc n)) = Fin q" by (rule round64_finite)
  then show ?thesis by simp
qed

text \<open>On the diagonal the two columns are one, and the three sums are one sum.\<close>

lemma diagonal_step:
  assumes "diagonal_state w"
  shows "diagonal_state (welford_step w (v, v))"
proof (cases "is_finite v")
  case False
  with assms show ?thesis by (simp add: welford_step_def)
next
  case True
  with assms show ?thesis
    by (auto simp add: welford_step_def diagonal_state_def Let_def dest: f_add_grid)
qed

lemma diagonal_fold:
  assumes "diagonal_state w"
  shows "diagonal_state (foldl welford_step w (map (\<lambda>x. (x, x)) xs))"
  using assms by (induction xs arbitrary: w) (simp_all add: diagonal_step)

lemma zip_same: "zip xs xs = map (\<lambda>x. (x, x)) xs"
  by (induction xs) simp_all

lemma diagonal_run: "diagonal_state (foldl welford_step welford_init (zip xs xs))"
  unfolding zip_same
  by (rule diagonal_fold) (simp add: diagonal_state_def welford_init_def is_float64_0)

lemma nancorr_pair_self:
  assumes "square_in_range (float_ssqdm xs)"
  shows "nancorr_pair xs xs = Fin 1"
proof -
  define w where "w = foldl welford_step welford_init (zip xs xs)"
  from assms obtain s where s: "ssqdm_x w = Fin s" "2 powi (- 511) \<le> s" "s < 2 powi 511"
    by (cases "float_ssqdm xs") (simp_all add: float_ssqdm_def w_def)
  have d: "diagonal_state w" unfolding w_def by (rule diagonal_run)
  with s have g: "is_float64 s" by (simp add: diagonal_state_def)
  have "(0::real) < 2 powi (- 511)" by simp
  with s(2) have s0: "s \<noteq> 0" by linarith
  with d s have n: "\<not> nobs w < 1" by (auto simp add: diagonal_state_def)
  from d s have e: "ssqdm_y w = Fin s" "covxy w = Fin s" by (simp_all add: diagonal_state_def)
  have "f_sqrt (f_mul (ssqdm_x w) (ssqdm_y w)) = Fin s"
    unfolding s e by (rule sqrt_square_exact) (fact g s)+
  with s0 n e show ?thesis
    by (simp add: nancorr_pair_def w_def [symmetric] Let_def round64_1)
qed

lemma constant_update:
  assumes "is_float64 a" "m = (if n = 0 then Fin 0 else Fin a)"
  shows "f_add m (f_mul (f_div (Fin 1) (Fin (real (n + 1)))) (f_sub (Fin a) m)) = Fin a"
proof (cases "n = 0")
  case True
  with assms show ?thesis
    by (simp add: f_sub_def round64_exact round64_1)
next
  case False
  from reciprocal_finite [of n] obtain q where "f_div (Fin 1) (Fin (real (Suc n))) = Fin q"
    by blast
  then have "f_div (Fin 1) (Fin (real (n + 1))) = Fin q" by simp
  with False assms show ?thesis
    by (simp add: f_sub_self round64_0 round64_exact del: f_div.simps)
qed

lemma constant_x_step:
  assumes "constant_x c w" "\<And>a. c = Fin a \<Longrightarrow> is_float64 a"
  shows "constant_x c (welford_step w (c, vy))"
proof (cases c)
  case (Fin a)
  then have a: "is_float64 a" by (rule assms(2))
  show ?thesis
  proof (cases "is_finite vy")
    case False
    with assms(1) show ?thesis by (simp add: welford_step_def)
  next
    case True
    from assms(1) have m: "meanx w = (if nobs w = 0 then Fin 0 else Fin a)"
      by (auto simp add: constant_x_def Fin)
    note u = constant_update [OF a m]
    from m a have dx: "f_sub (Fin a) (meanx w) = (if nobs w = 0 then Fin a else Fin 0)"
      by (simp add: f_sub_self f_sub_0)
    from m a u have after: "f_sub (Fin a) (Fin a) = Fin 0" by (simp add: f_sub_self)
    from assms(1) have "ssqdm_x w = Fin 0" by (simp add: constant_x_def)
    with True u show ?thesis
      by (simp add: welford_step_def Let_def constant_x_def Fin dx after round64_0
          del: f_div.simps)
  qed
qed (use assms(1) in \<open>simp_all add: welford_step_def\<close>)

lemma constant_y_step:
  assumes "constant_y c w" "\<And>a. c = Fin a \<Longrightarrow> is_float64 a"
  shows "constant_y c (welford_step w (vx, c))"
proof (cases c)
  case (Fin a)
  then have a: "is_float64 a" by (rule assms(2))
  show ?thesis
  proof (cases "is_finite vx")
    case False
    with assms(1) show ?thesis by (simp add: welford_step_def)
  next
    case True
    from assms(1) have m: "meany w = (if nobs w = 0 then Fin 0 else Fin a)"
      by (auto simp add: constant_y_def Fin)
    note u = constant_update [OF a m]
    from m a have dx: "f_sub (Fin a) (meany w) = (if nobs w = 0 then Fin a else Fin 0)"
      by (simp add: f_sub_self f_sub_0)
    from m a u have after: "f_sub (Fin a) (Fin a) = Fin 0" by (simp add: f_sub_self)
    from assms(1) have "ssqdm_y w = Fin 0" by (simp add: constant_y_def)
    with True u show ?thesis
      by (simp add: welford_step_def Let_def constant_y_def Fin dx after round64_0
          del: f_div.simps)
  qed
qed (use assms(1) in \<open>simp_all add: welford_step_def\<close>)

lemma constant_x_fold:
  assumes "constant_x c w" "\<And>a. c = Fin a \<Longrightarrow> is_float64 a"
  shows "constant_x c (foldl welford_step w (map (\<lambda>r. (c, g r)) df))"
  using assms(1)
  by (induction df arbitrary: w) (simp_all add: constant_x_step assms(2))

lemma constant_y_fold:
  assumes "constant_y c w" "\<And>a. c = Fin a \<Longrightarrow> is_float64 a"
  shows "constant_y c (foldl welford_step w (map (\<lambda>r. (g r, c)) df))"
  using assms(1)
  by (induction df arbitrary: w) (simp_all add: constant_y_step assms(2))

lemma zero_sum_divisor:
  "f_sqrt (f_mul (Fin 0) s) = Fin 0 \<or> f_sqrt (f_mul (Fin 0) s) = NaN"
  "f_sqrt (f_mul s (Fin 0)) = Fin 0 \<or> f_sqrt (f_mul s (Fin 0)) = NaN"
  by (cases s; simp add: round64_0)+

lemma zero_sum_entry:
  assumes "ssqdm_x w = Fin 0 \<or> ssqdm_y w = Fin 0"
  shows "(if nobs w < 1 then NaN
          else let divisor = f_sqrt (f_mul (ssqdm_x w) (ssqdm_y w))
               in if divisor \<noteq> Fin 0 then clip (f_div (covxy w) divisor) else NaN) = NaN"
  using assms zero_sum_divisor [of "ssqdm_y w"] zero_sum_divisor [of "ssqdm_x w"]
  by (auto simp add: Let_def)

lemma cells_constant:
  assumes "\<forall>r \<in> set df. c r = v"
  shows "zip (cells c df) (cells g df) = map (\<lambda>r. (round64 v, round64 (g r))) df"
    "zip (cells g df) (cells c df) = map (\<lambda>r. (round64 (g r), round64 v)) df"
  using assms by (induction df) (simp_all add: cells_def)

lemma nancorr_pair_constant:
  assumes "\<forall>r \<in> set df. c r = v"
  shows "nancorr_pair (cells c df) (cells g df) = NaN"
    "nancorr_pair (cells g df) (cells c df) = NaN"
proof -
  have grid: "\<And>a. round64 v = Fin a \<Longrightarrow> is_float64 a" by (rule round64_grid)
  have "constant_x (round64 v) welford_init" "constant_y (round64 v) welford_init"
    by (simp_all add: constant_x_def constant_y_def welford_init_def)
  from constant_x_fold [OF this(1) grid, of "\<lambda>r. round64 (g r)" df]
    constant_y_fold [OF this(2) grid, of "\<lambda>r. round64 (g r)" df]
  have z: "ssqdm_x (foldl welford_step welford_init (zip (cells c df) (cells g df))) = Fin 0"
    "ssqdm_y (foldl welford_step welford_init (zip (cells g df) (cells c df))) = Fin 0"
    by (simp_all add: cells_constant [OF assms] constant_x_def constant_y_def)
  show "nancorr_pair (cells c df) (cells g df) = NaN"
    "nancorr_pair (cells g df) (cells c df) = NaN"
    unfolding nancorr_pair_def Let_def by (rule zero_sum_entry [unfolded Let_def], simp add: z)+
qed

lemma variance_zero_constant:
  assumes "variance (map c df) = 0"
  shows "\<exists>v. \<forall>r \<in> set df. c r = v"
proof (cases "df = []")
  case True then show ?thesis by simp
next
  case False
  define mu where "mu = sum_list (map c df) / real (length df)"
  from assms False have "sum_list (map (\<lambda>r. (c r - mu)\<^sup>2) df) = 0"
    by (simp add: variance_def mu_def comp_def)
  moreover have "\<And>x. x \<in> set (map (\<lambda>r. (c r - mu)\<^sup>2) df) \<Longrightarrow> 0 \<le> x" by auto
  ultimately have "\<forall>x \<in> set (map (\<lambda>r. (c r - mu)\<^sup>2) df). x = 0"
    by (simp only: sum_list_nonneg_eq_0_iff)
  then have "\<forall>r \<in> set df. c r = mu" by simp
  then show ?thesis by blast
qed

text \<open>
  Claim C9, as amended. For every table and every list of numeric columns the
  correlation matrix is symmetric. For a column with zero variance every entry of its
  row and of its column is not-a-number. The diagonal entry of a column is exactly 1.0
  when the sum of squared deviations \<open>s\<close> that the computation accumulates for the column
  is a finite float64 with \<open>2 ^ (- 511) \<le> s < 2 ^ 511\<close>, so that \<open>s * s\<close> neither overflows
  nor underflows. The matrix is a value in every case: computing it raises nothing. The
  matrix drawn by the report is this matrix over the nine numeric columns.
\<close>

theorem correlation_matrix_properties:
  "(\<forall>i < length cols. \<forall>j < length cols. corr cols df ! i ! j = corr cols df ! j ! i) \<and>
   (\<forall>i < length cols.
      (square_in_range (float_ssqdm (cells (cols ! i) df)) \<longrightarrow> corr cols df ! i ! i = Fin 1) \<and>
      (variance (map (cols ! i) df) = 0 \<longrightarrow>
         (\<forall>j < length cols. corr cols df ! i ! j = NaN \<and> corr cols df ! j ! i = NaN))) \<and>
   (map_of (results s) ''comprehensive_results'' = Some df \<longrightarrow>
      files (fst (plot_correlation_analysis p s)) (path_join p ''correlation_matrix.png'') =
        Some (Png [CorrHeatmap (corr (map snd numeric_cols) df),
                   SetTitle (0, 0) ''Metric Correlation Matrix'']))"
proof (intro conjI allI impI)
  fix i j assume "i < length cols" "j < length cols"
  then show "corr cols df ! i ! j = corr cols df ! j ! i"
    by (rule corr_symmetric)
next
  fix i assume "i < length cols" "square_in_range (float_ssqdm (cells (cols ! i) df))"
  then show "corr cols df ! i ! i = Fin 1"
    by (simp add: corr_nth nancorr_pair_self)
next
  fix i j assume i: "i < length cols" and v: "variance (map (cols ! i) df) = 0"
    and j: "j < length cols"
  from variance_zero_constant [OF v] obtain v where "\<forall>r \<in> set df. (cols ! i) r = v" by blast
  note c = nancorr_pair_constant [OF this]
  have "corr cols df ! i ! j = NaN"
    unfolding corr_nth [OF i j] by (cases "i \<le> j") (simp_all add: max_def min_def c)
  moreover have "corr cols df ! j ! i = NaN"
    unfolding corr_nth [OF j i] by (cases "i \<le> j") (simp_all add: max_def min_def c)
  ultimately show "corr cols df ! i ! j = NaN" "corr cols df ! j ! i = NaN" .
next
  assume "map_of (results s) ''comprehensive_results'' = Some df"
  then have "map_of (results (print_line t s)) ''comprehensive_results'' = Some df" for t
    by (simp add: print_line_def)
  then show "files (fst (plot_correlation_analysis p s)) (path_join p ''correlation_matrix.png'') =
        Some (Png [CorrHeatmap (corr (map snd numeric_cols) df),
                   SetTitle (0, 0) ''Metric Correlation Matrix''])"
    by (simp add: plot_correlation_analysis_def Let_def savefig_def path_join_def)
qed

subsection \<open>The matrix on two small tables\<close>

lemma small_floats:
  "round64 2 = Fin 2" "round64 3 = Fin 3" "round64 (1 / 2) = Fin (1 / 2)"
proof -
  have "is_float64 (of_int 2 * 2 powi 0)" by (rule is_float64I) simp_all
  then show "round64 2 = Fin 2" using round64_exact by fastforce
  have "is_float64 (of_int 3 * 2 powi 0)" by (rule is_float64I) simp_all
  then show "round64 3 = Fin 3" using round64_exact by fastforce
  have "is_float64 (of_int 1 * 2 powi (- 1))" by (rule is_float64I) simp_all
  then have "is_float64 (1 / 2)" by (simp add: power_int_minus field_simps)
  then show "round64 (1 / 2) = Fin (1 / 2)" by (rule round64_exact)
qed

lemma corr_table_cells:
  "cells TotalCost corr_table = [Fin 1, Fin 3]"
  "cells (\<lambda>r. real_of_int (NodeCount r)) corr_table = [Fin 2, Fin 2]"
  by (simp_all add: cells_def corr_table_def mk_row_def round64_1 small_floats)

lemma corr_table_ssqdm: "float_ssqdm [Fin 1, Fin 3] = Fin 2"
  by (simp add: float_ssqdm_def welford_init_def welford_step_def Let_def f_sub_def
      round64_0 round64_1 small_floats)

lemma two_rows:
  assumes "is_float64 a" "is_float64 (2 * a)" "is_float64 (3 * a)"
  shows "foldl welford_step welford_init (zip [Fin a, Fin (3 * a)] [Fin a, Fin (3 * a)]) =
    \<lparr>nobs = 2, meanx = Fin (2 * a), meany = Fin (2 * a),
     ssqdm_x = f_add (Fin 0) (round64 (a * (2 * a))),
     ssqdm_y = f_add (Fin 0) (round64 (a * (2 * a))),
     covxy = f_add (Fin 0) (round64 (a * (2 * a)))\<rparr>"
  using assms [THEN round64_exact]
  by (simp add: welford_init_def welford_step_def Let_def f_sub_def round64_0 round64_1
      small_floats)

lemma huge_floats:
  "is_float64 (2 ^ 600)" "is_float64 (2 * 2 ^ 600)" "is_float64 (3 * 2 ^ 600)"
  "is_float64 (2 ^ 300)" "is_float64 (2 * 2 ^ 300)" "is_float64 (3 * 2 ^ 300)"
  "is_float64 (2 ^ 601)"
proof -
  have "is_float64 (of_int 1 * 2 powi 600)" "is_float64 (of_int 2 * 2 powi 600)"
    "is_float64 (of_int 3 * 2 powi 600)" "is_float64 (of_int 1 * 2 powi 300)"
    "is_float64 (of_int 2 * 2 powi 300)" "is_float64 (of_int 3 * 2 powi 300)"
    "is_float64 (of_int 1 * 2 powi 601)"
    by (rule is_float64I; simp)+
  then show "is_float64 (2 ^ 600)" "is_float64 (2 * 2 ^ 600)" "is_float64 (3 * 2 ^ 600)"
    "is_float64 (2 ^ 300)" "is_float64 (2 * 2 ^ 300)" "is_float64 (3 * 2 ^ 300)"
    "is_float64 (2 ^ 601)"
    by simp_all
qed

lemma huge_table_cells:
  "cells TotalCost huge_table = [Fin (2 ^ 600), Fin (3 * 2 ^ 600)]"
  "cells Makespan huge_table = [Fin (2 ^ 300), Fin (3 * 2 ^ 300)]"
  using huge_floats [THEN round64_exact]
  by (simp_all add: cells_def huge_table_def mk_row_def)

lemma huge_sums:
  "round64 (2 ^ 600 * (2 * 2 ^ 600)) = PosInf"
  "round64 (2 ^ 300 * (2 * 2 ^ 300)) = Fin (2 ^ 601)"
  "round64 (2 ^ 601 * 2 ^ 601) = PosInf"
proof -
  show "round64 (2 ^ 600 * (2 * 2 ^ 600)) = PosInf" by (rule round64_overflow) simp
  show "round64 (2 ^ 601 * 2 ^ 601) = PosInf" by (rule round64_overflow) simp
  have "(2::real) ^ 300 * (2 * 2 ^ 300) = 2 ^ 601" by simp
  with huge_floats(7) [THEN round64_exact]
  show "round64 (2 ^ 300 * (2 * 2 ^ 300)) = Fin (2 ^ 601)" by simp
qed

text \<open>
  Claim C9 as stated has the diagonal entry exactly 1.0 for every column of nonzero
  variance. In \<open>huge_table\<close> both columns vary. For TotalCost the sum of squared
  deviations overflows to infinity, and the entry is infinity divided by infinity:
  not-a-number. For Makespan the sum is the finite \<open>2 ^ 601\<close>, its square overflows, and
  the entry is \<open>2 ^ 601\<close> divided by infinity: 0.0.
\<close>

theorem correlation_diagonal_counterexample:
  "variance (map TotalCost huge_table) \<noteq> 0 \<and>
   corr [TotalCost, Makespan] huge_table ! 0 ! 0 = NaN \<and>
   variance (map Makespan huge_table) \<noteq> 0 \<and>
   corr [TotalCost, Makespan] huge_table ! 1 ! 1 = Fin 0"
proof -
  have v: "variance (map TotalCost huge_table) \<noteq> 0" "variance (map Makespan huge_table) \<noteq> 0"
    by (simp_all add: variance_def huge_table_def mk_row_def)
  have "nancorr_pair [Fin (2 ^ 600), Fin (3 * 2 ^ 600)] [Fin (2 ^ 600), Fin (3 * 2 ^ 600)] = NaN"
    unfolding nancorr_pair_def two_rows [OF huge_floats(1,2,3)] huge_sums
    by simp
  moreover have "nancorr_pair [Fin (2 ^ 300), Fin (3 * 2 ^ 300)] [Fin (2 ^ 300), Fin (3 * 2 ^ 300)]
      = Fin 0"
    unfolding nancorr_pair_def two_rows [OF huge_floats(4,5,6)] huge_sums
    using huge_floats(7) [THEN round64_exact] huge_sums(3)
    by (simp add: Let_def)
  ultimately show ?thesis
    using v by (simp add: corr_nth huge_table_cells)
qed

text \<open>
  TotalCost is 1 and 3 over \<open>corr_table\<close>, with the sum of squared deviations 2, and
  NodeCount is constant.
\<close>

theorem correlation_matrix_properties_witness:
  "corr [TotalCost, \<lambda>r. real_of_int (NodeCount r)] corr_table ! 0 ! 0 = Fin 1 \<and>
   corr [TotalCost, \<lambda>r. real_of_int (NodeCount r)] corr_table ! 1 ! 1 = NaN \<and>
   corr [TotalCost, \<lambda>r. real_of_int (NodeCount r)] corr_table ! 0 ! 1 = NaN \<and>
   corr [TotalCost, \<lambda>r. real_of_int (NodeCount r)] corr_table ! 1 ! 0 = NaN \<and>
   files (fst (plot_correlation_analysis ''analysis_plots'' (with_table corr_table)))
       (path_join ''analysis_plots'' ''correlation_matrix.png'') =
     Some (Png [CorrHeatmap (corr (map snd numeric_cols) corr_table),
                SetTitle (0, 0) ''Metric Correlation Matrix''])"
proof -
  have v0: "square_in_range (float_ssqdm (cells TotalCost corr_table))"
    by (simp add: corr_table_cells corr_table_ssqdm)
  have v1: "variance (map (\<lambda>r. real_of_int (NodeCount r)) corr_table) = 0"
    by (simp add: corr_table_def mk_row_def variance_def)
  from correlation_matrix_properties
    [of "[TotalCost, \<lambda>r. real_of_int (NodeCount r)]" corr_table "with_table corr_table"
       "''analysis_plots''"]
  have "\<forall>i < 2.
      (square_in_range (float_ssqdm (cells ([TotalCost, \<lambda>r. real_of_int (NodeCount r)] ! i)
           corr_table)) \<longrightarrow>
         corr [TotalCost, \<lambda>r. real_of_int (NodeCount r)] corr_table ! i ! i = Fin 1) \<and>
      (variance (map ([TotalCost, \<lambda>r. real_of_int (NodeCount r)] ! i) corr_table) = 0 \<longrightarrow>
         (\<forall>j < 2. corr [TotalCost, \<lambda>r. real_of_int (NodeCount r)] corr_table ! i ! j = NaN \<and>
            corr [TotalCost, \<lambda>r. real_of_int (NodeCount r)] corr_table ! j ! i = NaN))"
    and heat: "files (fst (plot_correlation_analysis ''analysis_plots'' (with_table corr_table)))
       (path_join ''analysis_plots'' ''correlation_matrix.png'') =
     Some (Png [CorrHeatmap (corr (map snd numeric_cols) corr_table),
                SetTitle (0, 0) ''Metric Correlation Matrix''])"
    by (simp_all add: with_table_def fresh_def)
  then have d0: "corr [TotalCost, \<lambda>r. real_of_int (NodeCount r)] corr_table ! 0 ! 0 = Fin 1"
    and d1: "\<forall>j < 2. corr [TotalCost, \<lambda>r. real_of_int (NodeCount r)] corr_table ! 1 ! j = NaN \<and>
            corr [TotalCost, \<lambda>r. real_of_int (NodeCount r)] corr_table ! j ! 1 = NaN"
    using v0 v1 by (auto simp add: less_Suc_eq numeral_2_eq_2 dest!: spec [of _ 0] spec [of _ "Suc 0"])
  from d1 have "corr [TotalCost, \<lambda>r. real_of_int (NodeCount r)] corr_table ! 1 ! 1 = NaN"
    "corr [TotalCost, \<lambda>r. real_of_int (NodeCount r)] corr_table ! 0 ! 1 = NaN"
    "corr [TotalCost, \<lambda>r. real_of_int (NodeCount r)] corr_table ! 1 ! 0 = NaN"
    by (auto simp add: less_Suc_eq numeral_2_eq_2)
  with d0 heat show ?thesis by simp
qed

subsection \<open>The statistical summary\<close>

text \<open>
  \<^verbatim>\<open>'std'\<close> with the default \<^verbatim>\<open>ddof=1\<close> is the sample standard deviation; with
  \<^verbatim>\<open>ddof=0\<close> it would be the population one, and the two differ.
\<close>

lemma agg_std_sample: "agg_std 1 xs = sample_std xs"
proof (cases "length xs < 2")
  case True
  then have "length xs \<le> 1" by simp
  with True show ?thesis by (simp add: agg_std_def agg_var_def sample_std_def)
next
  case False
  then have "\<not> length xs \<le> 1" "real (length xs - 1) = real (length xs) - 1"
    by (simp_all add: of_nat_diff)
  with False show ?thesis by (simp add: agg_std_def agg_var_def sample_std_def)
qed

lemma agg_std_sample_Suc: "agg_std (Suc 0) xs = sample_std xs"
  using agg_std_sample [of xs] by simp

lemma agg_std_population: "agg_std 0 xs = population_std xs"
  by (simp add: agg_std_def agg_var_def population_std_def)

lemma sample_differs_from_population:
  "agg_std 1 [1, 3] = Some (sqrt 2)" "population_std [1, 3] = Some 1"
  by (simp_all add: agg_std_sample_Suc sample_std_def population_std_def)

lemma agg_min_Min: "xs \<noteq> [] \<Longrightarrow> agg_min xs = Some (Min (set xs))"
  by (cases xs) (simp_all add: agg_min_def Min.set_eq_fold [symmetric])

lemma agg_max_Max: "xs \<noteq> [] \<Longrightarrow> agg_max xs = Some (Max (set xs))"
  by (cases xs) (simp_all add: agg_max_def Max.set_eq_fold [symmetric])

lemma stat_functions_spec:
  assumes "xs \<noteq> []"
  shows "map (\<lambda>(st, f). f xs) stat_functions = spec_stats xs"
  using assms
  by (simp add: stat_functions_def spec_stats_def agg_mean_def agg_std_sample_Suc agg_min_Min
      agg_max_Max)

lemma groupby_agg_spec:
  "groupby_agg df =
     ([(''TotalCost'', ''mean''), (''TotalCost'', ''std''), (''TotalCost'', ''min''),
       (''TotalCost'', ''max''),
       (''Makespan'', ''mean''), (''Makespan'', ''std''), (''Makespan'', ''min''),
       (''Makespan'', ''max''),
       (''DeadlineHitRate'', ''mean''), (''DeadlineHitRate'', ''std''),
       (''DeadlineHitRate'', ''min''), (''DeadlineHitRate'', ''max''),
       (''ExecutionTime'', ''mean''), (''ExecutionTime'', ''std''), (''ExecutionTime'', ''min''),
       (''ExecutionTime'', ''max'')],
      map (\<lambda>a. (a, spec_stats (map TotalCost (get_group a df))
                     @ spec_stats (map Makespan (get_group a df))
                     @ spec_stats (map DeadlineHitRate (get_group a df))
                     @ spec_stats (map ExecutionTime (get_group a df))))
        (group_keys df))"
proof -
  have row: "concat (map (\<lambda>(m, col). map (\<lambda>(st, f). f (map col (get_group a df)))
                                  stat_functions) summary_metrics) =
      spec_stats (map TotalCost (get_group a df))
        @ spec_stats (map Makespan (get_group a df))
        @ spec_stats (map DeadlineHitRate (get_group a df))
        @ spec_stats (map ExecutionTime (get_group a df))"
    if "a \<in> set (group_keys df)" for a
    using get_group_nonempty [OF that]
    by (simp add: summary_metrics_def stat_functions_spec)
  have header: "concat (map (\<lambda>(m, col). map (\<lambda>(st, f). (m, st)) stat_functions) summary_metrics)
      = [(''TotalCost'', ''mean''), (''TotalCost'', ''std''), (''TotalCost'', ''min''),
       (''TotalCost'', ''max''),
       (''Makespan'', ''mean''), (''Makespan'', ''std''), (''Makespan'', ''min''),
       (''Makespan'', ''max''),
       (''DeadlineHitRate'', ''mean''), (''DeadlineHitRate'', ''std''),
       (''DeadlineHitRate'', ''min''), (''DeadlineHitRate'', ''max''),
       (''ExecutionTime'', ''mean''), (''ExecutionTime'', ''std''), (''ExecutionTime'', ''min''),
       (''ExecutionTime'', ''max'')]"
    by (simp add: summary_metrics_def stat_functions_def)
  show ?thesis
    unfolding groupby_agg_def header using row by simp
qed

lemma generate_statistical_summary_outputs:
  assumes "map_of (results s) ''comprehensive_results'' = Some df"
  shows "files (fst (generate_statistical_summary p s)) (path_join p ''statistical_summary.csv'')
           = Some (Csv (round_frame 4 (groupby_agg df)))"
    and "Frame (round_frame 4 (groupby_agg df))
           \<in> set (console (fst (generate_statistical_summary p s)))"
    and "results (fst (generate_statistical_summary p s)) = results s"
proof -
  have present: "map_of (results (print_line t s)) ''comprehensive_results'' = Some df" for t
    using assms by (simp add: print_line_def)
  show "files (fst (generate_statistical_summary p s)) (path_join p ''statistical_summary.csv'')
           = Some (Csv (round_frame 4 (groupby_agg df)))"
    by (simp add: generate_statistical_summary_def Let_def present
        split: sum.splits prod.splits)
      (simp add: print_line_def print_frame_def savefig_def to_csv_def path_join_def)
  show "Frame (round_frame 4 (groupby_agg df))
           \<in> set (console (fst (generate_statistical_summary p s)))"
    by (simp add: generate_statistical_summary_def Let_def present
        split: sum.splits prod.splits)
      (simp add: print_line_def print_frame_def savefig_def to_csv_def)
  show "results (fst (generate_statistical_summary p s)) = results s"
    by (simp add: generate_statistical_summary_def Let_def present
        split: sum.splits prod.splits)
      (simp add: print_line_def print_frame_def savefig_def to_csv_def)
qed

lemma summary_table_keys: "group_keys summary_table = [StrKey ''GA'', StrKey ''PSO'']"
  by (simp add: group_keys_def summary_table_def mk_row_def)

lemma summary_table_columns:
  "map TotalCost (get_group (StrKey ''GA'') summary_table) = [1.00004, 2.00004, 3.00004]"
  "map Makespan (get_group (StrKey ''GA'') summary_table) = [10, 20, 30]"
  "map DeadlineHitRate (get_group (StrKey ''GA'') summary_table) = [0.25, 0.5, 0.75]"
  "map ExecutionTime (get_group (StrKey ''GA'') summary_table) = [3, 5, 7]"
  "map TotalCost (get_group (StrKey ''PSO'') summary_table) = [7]"
  "map Makespan (get_group (StrKey ''PSO'') summary_table) = [8]"
  "map DeadlineHitRate (get_group (StrKey ''PSO'') summary_table) = [0.5]"
  "map ExecutionTime (get_group (StrKey ''PSO'') summary_table) = [9]"
  by (simp_all add: get_group_def summary_table_def mk_row_def)

lemma sqrt_values: "sqrt 100 = 10" "sqrt (1 / 16) = 1 / 4" "sqrt 4 = 2"
  by (rule real_sqrt_unique; simp add: power2_eq_square)+

lemma summary_table_stats:
  "spec_stats [1.00004, 2.00004, 3.00004] = [Some 2.00004, Some 1, Some 1.00004, Some 3.00004]"
  "spec_stats [10, 20, 30] = [Some 20, Some 10, Some 10, Some 30]"
  "spec_stats [0.25, 0.5, 0.75] = [Some 0.5, Some 0.25, Some 0.25, Some 0.75]"
  "spec_stats [3, 5, 7] = [Some 5, Some 2, Some 3, Some 7]"
  "spec_stats [7] = [Some 7, None, Some 7, Some 7]"
  "spec_stats [8] = [Some 8, None, Some 8, Some 8]"
  "spec_stats [0.5] = [Some 0.5, None, Some 0.5, Some 0.5]"
  "spec_stats [9] = [Some 9, None, Some 9, Some 9]"
  by (simp_all add: spec_stats_def sample_std_def power2_eq_square sqrt_values)

lemma round_values:
  "round_decimals 4 2.00004 = 2" "round_decimals 4 1.00004 = 1" "round_decimals 4 3.00004 = 3"
  "round_decimals 4 0.25 = 0.25" "round_decimals 4 0.5 = 0.5" "round_decimals 4 0.75 = 0.75"
  "round_decimals 4 1 = 1" "round_decimals 4 2 = 2" "round_decimals 4 3 = 3"
  "round_decimals 4 5 = 5" "round_decimals 4 7 = 7" "round_decimals 4 8 = 8"
  "round_decimals 4 9 = 9" "round_decimals 4 10 = 10" "round_decimals 4 20 = 20"
  "round_decimals 4 30 = 30"
  by (simp_all add: round_decimals_def rint_def Let_def)


text \<open>
  Claim C8, over real numbers. With the primary table present the summary report writes
  \<^verbatim>\<open>statistical_summary.csv\<close> in the output directory; its columns are mean, std, min
  and max of TotalCost, Makespan, DeadlineHitRate and ExecutionTime, in this order; it
  has one row per Algorithm of the table; and the values of a row are the arithmetic
  mean, the sample standard deviation (divisor \<open>n - 1\<close>, not-a-number for a group of one
  row), the least and the greatest value of the group, each rounded to 4 places.
\<close>

theorem statistical_summary_contents:
  assumes "map_of (results s) ''comprehensive_results'' = Some df"
  shows "files (fst (generate_statistical_summary p s)) (path_join p ''statistical_summary.csv'')
     = Some (Csv
        ([(''TotalCost'', ''mean''), (''TotalCost'', ''std''), (''TotalCost'', ''min''),
          (''TotalCost'', ''max''),
          (''Makespan'', ''mean''), (''Makespan'', ''std''), (''Makespan'', ''min''),
          (''Makespan'', ''max''),
          (''DeadlineHitRate'', ''mean''), (''DeadlineHitRate'', ''std''),
          (''DeadlineHitRate'', ''min''), (''DeadlineHitRate'', ''max''),
          (''ExecutionTime'', ''mean''), (''ExecutionTime'', ''std''),
          (''ExecutionTime'', ''min''), (''ExecutionTime'', ''max'')],
         map (\<lambda>a. (a, map (map_option (round_decimals 4))
                        (spec_stats (map TotalCost (get_group a df))
                         @ spec_stats (map Makespan (get_group a df))
                         @ spec_stats (map DeadlineHitRate (get_group a df))
                         @ spec_stats (map ExecutionTime (get_group a df)))))
           (group_keys df))) \<and>
     set (group_keys df) = Algorithm ` set df \<and> distinct (group_keys df)"
  using generate_statistical_summary_outputs(1) [OF assms, of p]
  by (simp add: groupby_agg_spec round_frame_def comp_def group_keys_set group_keys_sorted)

text \<open>
  Three rows of \<^verbatim>\<open>GA\<close> and one of \<^verbatim>\<open>PSO\<close>.
\<close>

theorem statistical_summary_contents_witness:
  "files (fst (generate_statistical_summary ''analysis_plots'' (with_table summary_table)))
     ''analysis_plots/statistical_summary.csv''
     = Some (Csv
        ([(''TotalCost'', ''mean''), (''TotalCost'', ''std''), (''TotalCost'', ''min''),
          (''TotalCost'', ''max''),
          (''Makespan'', ''mean''), (''Makespan'', ''std''), (''Makespan'', ''min''),
          (''Makespan'', ''max''),
          (''DeadlineHitRate'', ''mean''), (''DeadlineHitRate'', ''std''),
          (''DeadlineHitRate'', ''min''), (''DeadlineHitRate'', ''max''),
          (''ExecutionTime'', ''mean''), (''ExecutionTime'', ''std''),
          (''ExecutionTime'', ''min''), (''ExecutionTime'', ''max'')],
         [(StrKey ''GA'', [Some 2, Some 1, Some 1, Some 3, Some 20, Some 10, Some 10, Some 30,
                    Some 0.5, Some 0.25, Some 0.25, Some 0.75, Some 5, Some 2, Some 3, Some 7]),
          (StrKey ''PSO'', [Some 7, None, Some 7, Some 7, Some 8, None, Some 8, Some 8,
                     Some 0.5, None, Some 0.5, Some 0.5, Some 9, None, Some 9, Some 9])]))"
proof -
  have t: "map_of (results (with_table summary_table)) ''comprehensive_results''
      = Some summary_table"
    by (simp add: with_table_def)
  note run = statistical_summary_contents [OF t, of "''analysis_plots''"]
  from run show ?thesis
    apply (simp only: summary_table_keys list.map summary_table_columns summary_table_stats
        map_append option.map round_values)
    apply (simp add: path_join_def)
    done
qed

subsection \<open>Rounding to four places\<close>




text \<open>
  The bound \<open>5e-5\<close> is attained: \<open>0.00005\<close> is written as \<open>0\<close>.
\<close>

lemma round_decimals_tie: "\<bar>round_decimals 4 (1 / 20000) - 1 / 20000\<bar> = 5 / 10 ^ 5"
  by (simp add: round_decimals_def rint_def Let_def)



end
